theory Spec2Isabelle
  imports Complex_Main "HOL-Library.Word"
begin

section \<open>JavaScript values\<close>

text \<open>
  The chat client is a browser script: \<^verbatim>\<open>config.js\<close> holds the configuration and the
  credential helpers, \<^verbatim>\<open>script.js\<close> the conversation state, the request assembly and the
  persistence. Its state is three globals and two entries of the browser's local store.

  Strings are sequences of UTF-16 code units, as in the language. A value is what a JSON
  text can denote, plus \<open>undefined\<close>. An object lists its properties in enumeration
  order, one entry per key. Numbers are kept as the exact rationals they denote: the
  rounding of IEEE doubles, infinities and the printing and parsing of numbers are not
  part of the model (the last two are parameters, see \<open>platform\<close>).
\<close>

type_synonym jsstring = "16 word list"

definition js :: "string \<Rightarrow> jsstring" where
  \<comment> \<open>an ASCII literal as code units\<close>
  "js s = map (\<lambda>c. word_of_nat (of_char c)) s"

datatype jsval =
    JUndefined
  | JNull
  | JBool bool
  | JNum rat
  | JStr jsstring
  | JArr "jsval list"
  | JObj "(jsstring \<times> jsval) list"

datatype js_error =
    TypeError
  | SyntaxError
  | Error jsstring  \<comment> \<open>\<^verbatim>\<open>new Error(message)\<close>\<close>

text \<open>
  What the program asks of the browser beyond the language core is a parameter: the
  printing of a number, the parsing of a string as a number, and the page's answer to
  \<^verbatim>\<open>document.querySelector\<close> (an exception for a selector that is not well formed,
  otherwise whether an element matches).
\<close>

record platform =
  NumberToString :: "rat \<Rightarrow> jsstring"
  StringToNumber :: "jsstring \<Rightarrow> rat option"
  querySelector :: "jsstring \<Rightarrow> js_error + bool"

fun truthy :: "jsval \<Rightarrow> bool" where
  "truthy JUndefined = False"
| "truthy JNull = False"
| "truthy (JBool b) = b"
| "truthy (JNum r) = (r \<noteq> 0)"
| "truthy (JStr s) = (s \<noteq> [])"
| "truthy (JArr xs) = True"
| "truthy (JObj kvs) = True"

definition js_or :: "jsval \<Rightarrow> jsval \<Rightarrow> jsval" where
  \<comment> \<open>\<^verbatim>\<open>a || b\<close>\<close>
  "js_or a b = (if truthy a then a else b)"

definition and_then :: "js_error + 'a \<Rightarrow> ('a \<Rightarrow> js_error + 'b) \<Rightarrow> js_error + 'b" where
  \<comment> \<open>sequencing: an exception skips what follows\<close>
  "and_then r f = (case r of Inl e \<Rightarrow> Inl e | Inr v \<Rightarrow> f v)"

fun join :: "(js_error + jsstring) list \<Rightarrow> js_error + jsstring" where
  "join [] = Inr []"
| "join [r] = r"
| "join (r # rs) =
     (case r of Inl e \<Rightarrow> Inl e
      | Inr s \<Rightarrow> (case join rs of Inl e \<Rightarrow> Inl e | Inr t \<Rightarrow> Inr (s @ js '','' @ t)))"

fun ToString :: "platform \<Rightarrow> jsval \<Rightarrow> js_error + jsstring" where
  \<comment> \<open>Conversion to a string. An array joins its elements; an object made of data has
      no callable method of its own, so an own \<open>toString\<close> entry leaves the conversion
      without a result.\<close>
  "ToString pf JUndefined = Inr (js ''undefined'')"
| "ToString pf JNull = Inr (js ''null'')"
| "ToString pf (JBool b) = Inr (if b then js ''true'' else js ''false'')"
| "ToString pf (JNum r) = Inr (NumberToString pf r)"
| "ToString pf (JStr s) = Inr s"
| "ToString pf (JArr xs) =
     join (map (\<lambda>x. if x = JUndefined \<or> x = JNull then Inr [] else ToString pf x) xs)"
| "ToString pf (JObj kvs) =
     (if map_of kvs (js ''toString'') \<noteq> None then Inl TypeError
      else Inr (js ''[object Object]''))"

definition ToNumber :: "platform \<Rightarrow> jsval \<Rightarrow> js_error + rat option" where
  \<comment> \<open>Conversion to a number; \<open>None\<close> is NaN.\<close>
  "ToNumber pf v =
     (case v of
        JUndefined \<Rightarrow> Inr None
      | JNull \<Rightarrow> Inr (Some 0)
      | JBool b \<Rightarrow> Inr (Some (if b then 1 else 0))
      | JNum r \<Rightarrow> Inr (Some r)
      | _ \<Rightarrow> and_then (ToString pf v) (\<lambda>s. Inr (StringToNumber pf s)))"

definition get :: "jsval \<Rightarrow> jsstring \<Rightarrow> js_error + jsval" where
  \<comment> \<open>\<^verbatim>\<open>v.name\<close>, for a name that no built-in prototype defines (all the names the
      program reads are such)\<close>
  "get v name =
     (case v of
        JUndefined \<Rightarrow> Inl TypeError
      | JNull \<Rightarrow> Inl TypeError
      | JObj kvs \<Rightarrow> Inr (case map_of kvs name of Some x \<Rightarrow> x | None \<Rightarrow> JUndefined)
      | _ \<Rightarrow> Inr JUndefined)"

definition get_length :: "jsval \<Rightarrow> js_error + jsval" where
  \<comment> \<open>\<^verbatim>\<open>v.length\<close>\<close>
  "get_length v =
     (case v of
        JArr xs \<Rightarrow> Inr (JNum (of_nat (length xs)))
      | JStr s \<Rightarrow> Inr (JNum (of_nat (length s)))
      | _ \<Rightarrow> get v (js ''length''))"

definition index :: "platform \<Rightarrow> jsval \<Rightarrow> nat \<Rightarrow> js_error + jsval" where
  \<comment> \<open>\<^verbatim>\<open>v[i]\<close>; out of range is \<open>undefined\<close>\<close>
  "index pf v i =
     (case v of
        JArr xs \<Rightarrow> Inr (if i < length xs then xs ! i else JUndefined)
      | JStr s \<Rightarrow> Inr (if i < length s then JStr [s ! i] else JUndefined)
      | _ \<Rightarrow> get v (NumberToString pf (of_nat i)))"

definition is_space :: "16 word \<Rightarrow> bool" where
  \<comment> \<open>white space and line terminators, the code units \<^verbatim>\<open>trim\<close> strips\<close>
  "is_space c \<longleftrightarrow>
     c \<in> set [0x9, 0xA, 0xB, 0xC, 0xD, 0x20, 0xA0, 0x1680, 0x2028, 0x2029, 0x202F, 0x205F,
              0x3000, 0xFEFF]
     \<or> (0x2000 \<le> c \<and> c \<le> 0x200A)"

definition trim :: "jsstring \<Rightarrow> jsstring" where
  "trim s = rev (dropWhile is_space (rev (dropWhile is_space s)))"

fun code_points :: "jsstring \<Rightarrow> jsstring list" where
  \<comment> \<open>iterating a string yields code points: a surrogate pair stays together\<close>
  "code_points (a # b # s) =
     (if 0xD800 \<le> a \<and> a \<le> 0xDBFF \<and> 0xDC00 \<le> b \<and> b \<le> 0xDFFF
      then [a, b] # code_points s else [a] # code_points (b # s))"
| "code_points [a] = [[a]]"
| "code_points [] = []"

definition spread :: "jsval \<Rightarrow> js_error + jsval list" where
  \<comment> \<open>\<^verbatim>\<open>...v\<close>: only arrays and strings are iterable\<close>
  "spread v =
     (case v of
        JArr xs \<Rightarrow> Inr xs
      | JStr s \<Rightarrow> Inr (map JStr (code_points s))
      | _ \<Rightarrow> Inl TypeError)"

definition push :: "jsval \<Rightarrow> jsval \<Rightarrow> js_error + jsval" where
  \<comment> \<open>\<^verbatim>\<open>v.push(x)\<close>: only an array has the method\<close>
  "push v x = (case v of JArr xs \<Rightarrow> Inr (JArr (xs @ [x])) | _ \<Rightarrow> Inl TypeError)"

definition slice_last :: "nat \<Rightarrow> 'a list \<Rightarrow> 'a list" where
  \<comment> \<open>\<^verbatim>\<open>xs.slice(-n)\<close>\<close>
  "slice_last n xs = drop (length xs - n) xs"

subsection \<open>JSON texts\<close>

text \<open>
  A text (a stored entry, a request or response body) is kept up to the value it
  denotes: \<open>Json v\<close> is a text that \<^verbatim>\<open>JSON.parse\<close> reads as \<open>v\<close>, \<open>Garbled\<close> a
  non-empty text that it rejects, \<open>Blank\<close> the empty text (rejected as well).
  \<^verbatim>\<open>JSON.stringify\<close> writes the text of \<open>to_json v\<close>: a property whose value is
  \<open>undefined\<close> is left out, an \<open>undefined\<close> array element is written as
  \<open>null\<close>.
\<close>

datatype json_text = Blank | Garbled | Json jsval

fun to_json :: "jsval \<Rightarrow> jsval" where
  "to_json (JArr xs) = JArr (map (\<lambda>x. if x = JUndefined then JNull else to_json x) xs)"
| "to_json (JObj kvs) =
     JObj (map (\<lambda>(k, v). (k, to_json v)) (filter (\<lambda>(k, v). v \<noteq> JUndefined) kvs))"
| "to_json v = v"

definition JSON_stringify :: "jsval \<Rightarrow> json_text" where
  "JSON_stringify v = Json (to_json v)"

definition JSON_parse :: "json_text \<Rightarrow> js_error + jsval" where
  "JSON_parse t = (case t of Json v \<Rightarrow> Inr v | _ \<Rightarrow> Inl SyntaxError)"

section \<open>Configuration (\<^verbatim>\<open>config.js\<close>)\<close>

definition GEMINI_API_URL :: jsstring where
  "GEMINI_API_URL =
     js ''https://generativelanguage.googleapis.com/v1beta/models/gemini-2.5-flash:generateContent''"

definition MODEL_CONFIG :: jsval where
  "MODEL_CONFIG =
     JObj [(js ''temperature'', JNum (7 / 10)), (js ''maxOutputTokens'', JNum 2048),
           (js ''topP'', JNum (8 / 10)), (js ''topK'', JNum 40)]"

definition prompt_default :: jsstring where
  \<comment> \<open>155 UTF-16 code units; in English: "You are a professional assistant. Answer in Russian precisely, to the point, in a structured way. Be polite and helpful. Use a formal style."\<close>
  "prompt_default =
     [0x422, 0x44B, 0x20, 0x2014, 0x20, 0x43F, 0x440, 0x43E, 0x444, 0x435, 0x441, 0x441,
      0x438, 0x43E, 0x43D, 0x430, 0x43B, 0x44C, 0x43D, 0x44B, 0x439, 0x20, 0x430, 0x441,
      0x441, 0x438, 0x441, 0x442, 0x435, 0x43D, 0x442, 0x2E, 0x20, 0x41E, 0x442, 0x432,
      0x435, 0x447, 0x430, 0x439, 0x20, 0x43D, 0x430, 0x20, 0x440, 0x443, 0x441, 0x441,
      0x43A, 0x43E, 0x43C, 0x20, 0x44F, 0x437, 0x44B, 0x43A, 0x435, 0x20, 0x442, 0x43E,
      0x447, 0x43D, 0x43E, 0x2C, 0x20, 0x43F, 0x43E, 0x20, 0x434, 0x435, 0x43B, 0x443, 0x2C,
      0x20, 0x441, 0x442, 0x440, 0x443, 0x43A, 0x442, 0x443, 0x440, 0x438, 0x440, 0x43E,
      0x432, 0x430, 0x43D, 0x43D, 0x43E, 0x2E, 0x20, 0x411, 0x443, 0x434, 0x44C, 0x20,
      0x432, 0x435, 0x436, 0x43B, 0x438, 0x432, 0x44B, 0x43C, 0x20, 0x438, 0x20, 0x43F,
      0x43E, 0x43C, 0x43E, 0x433, 0x430, 0x44E, 0x449, 0x438, 0x43C, 0x2E, 0x20, 0x418,
      0x441, 0x43F, 0x43E, 0x43B, 0x44C, 0x437, 0x443, 0x439, 0x20, 0x444, 0x43E, 0x440,
      0x43C, 0x430, 0x43B, 0x44C, 0x43D, 0x44B, 0x439, 0x20, 0x441, 0x442, 0x438, 0x43B,
      0x44C, 0x20, 0x43E, 0x431, 0x449, 0x435, 0x43D, 0x438, 0x44F, 0x2E]"

definition prompt_poet :: jsstring where
  \<comment> \<open>150 UTF-16 code units; in English: "You are a poet. Answer in Russian in verse. Use beautiful metaphors, rhymes and imagery. Be creative and inspiring."\<close>
  "prompt_poet =
     [0x422, 0x44B, 0x20, 0x2014, 0x20, 0x43F, 0x43E, 0x44D, 0x442, 0x2E, 0x20, 0x41E,
      0x442, 0x432, 0x435, 0x447, 0x430, 0x439, 0x20, 0x43D, 0x430, 0x20, 0x440, 0x443,
      0x441, 0x441, 0x43A, 0x43E, 0x43C, 0x20, 0x44F, 0x437, 0x44B, 0x43A, 0x435, 0x20,
      0x432, 0x20, 0x441, 0x442, 0x438, 0x445, 0x43E, 0x442, 0x432, 0x43E, 0x440, 0x43D,
      0x43E, 0x439, 0x20, 0x444, 0x43E, 0x440, 0x43C, 0x435, 0x2E, 0x20, 0x418, 0x441,
      0x43F, 0x43E, 0x43B, 0x44C, 0x437, 0x443, 0x439, 0x20, 0x43A, 0x440, 0x430, 0x441,
      0x438, 0x432, 0x44B, 0x435, 0x20, 0x43C, 0x435, 0x442, 0x430, 0x444, 0x43E, 0x440,
      0x44B, 0x2C, 0x20, 0x440, 0x438, 0x444, 0x43C, 0x44B, 0x20, 0x438, 0x20, 0x445, 0x443,
      0x434, 0x43E, 0x436, 0x435, 0x441, 0x442, 0x432, 0x435, 0x43D, 0x43D, 0x44B, 0x435,
      0x20, 0x43E, 0x431, 0x440, 0x430, 0x437, 0x44B, 0x2E, 0x20, 0x411, 0x443, 0x434,
      0x44C, 0x20, 0x442, 0x432, 0x43E, 0x440, 0x447, 0x435, 0x441, 0x43A, 0x438, 0x43C,
      0x20, 0x438, 0x20, 0x432, 0x434, 0x43E, 0x445, 0x43D, 0x43E, 0x432, 0x43B, 0x44F,
      0x44E, 0x449, 0x438, 0x43C, 0x2E]"

definition prompt_teacher :: jsstring where
  \<comment> \<open>134 UTF-16 code units; in English: "You are a teacher. Answer in Russian simply and clearly, explain complex things step by step. Be patient, supportive and methodical."\<close>
  "prompt_teacher =
     [0x422, 0x44B, 0x20, 0x2014, 0x20, 0x443, 0x447, 0x438, 0x442, 0x435, 0x43B, 0x44C,
      0x2E, 0x20, 0x41E, 0x442, 0x432, 0x435, 0x447, 0x430, 0x439, 0x20, 0x43D, 0x430, 0x20,
      0x440, 0x443, 0x441, 0x441, 0x43A, 0x43E, 0x43C, 0x20, 0x44F, 0x437, 0x44B, 0x43A,
      0x435, 0x20, 0x43F, 0x440, 0x43E, 0x441, 0x442, 0x43E, 0x20, 0x438, 0x20, 0x43F,
      0x43E, 0x43D, 0x44F, 0x442, 0x43D, 0x43E, 0x2C, 0x20, 0x43E, 0x431, 0x44A, 0x44F,
      0x441, 0x43D, 0x44F, 0x439, 0x20, 0x441, 0x43B, 0x43E, 0x436, 0x43D, 0x44B, 0x435,
      0x20, 0x432, 0x435, 0x449, 0x438, 0x20, 0x43F, 0x43E, 0x448, 0x430, 0x433, 0x43E,
      0x432, 0x43E, 0x2E, 0x20, 0x411, 0x443, 0x434, 0x44C, 0x20, 0x442, 0x435, 0x440,
      0x43F, 0x435, 0x43B, 0x438, 0x432, 0x44B, 0x43C, 0x2C, 0x20, 0x43F, 0x43E, 0x434,
      0x434, 0x435, 0x440, 0x436, 0x438, 0x432, 0x430, 0x44E, 0x449, 0x438, 0x43C, 0x20,
      0x438, 0x20, 0x43C, 0x435, 0x442, 0x43E, 0x434, 0x438, 0x447, 0x43D, 0x44B, 0x43C,
      0x2E]"

definition prompt_friend :: jsstring where
  \<comment> \<open>133 UTF-16 code units; in English: "You are a close friend. Answer in Russian informally, in a friendly way, with humour. Use simple speech, support and show care."\<close>
  "prompt_friend =
     [0x422, 0x44B, 0x20, 0x2014, 0x20, 0x431, 0x43B, 0x438, 0x437, 0x43A, 0x438, 0x439,
      0x20, 0x434, 0x440, 0x443, 0x433, 0x2E, 0x20, 0x41E, 0x442, 0x432, 0x435, 0x447,
      0x430, 0x439, 0x20, 0x43D, 0x430, 0x20, 0x440, 0x443, 0x441, 0x441, 0x43A, 0x43E,
      0x43C, 0x20, 0x44F, 0x437, 0x44B, 0x43A, 0x435, 0x20, 0x43D, 0x435, 0x444, 0x43E,
      0x440, 0x43C, 0x430, 0x43B, 0x44C, 0x43D, 0x43E, 0x2C, 0x20, 0x434, 0x440, 0x443,
      0x436, 0x435, 0x43B, 0x44E, 0x431, 0x43D, 0x43E, 0x2C, 0x20, 0x441, 0x20, 0x44E,
      0x43C, 0x43E, 0x440, 0x43E, 0x43C, 0x2E, 0x20, 0x418, 0x441, 0x43F, 0x43E, 0x43B,
      0x44C, 0x437, 0x443, 0x439, 0x20, 0x43F, 0x440, 0x43E, 0x441, 0x442, 0x443, 0x44E,
      0x20, 0x440, 0x435, 0x447, 0x44C, 0x2C, 0x20, 0x43F, 0x43E, 0x434, 0x434, 0x435,
      0x440, 0x436, 0x438, 0x432, 0x430, 0x439, 0x20, 0x438, 0x20, 0x43F, 0x440, 0x43E,
      0x44F, 0x432, 0x43B, 0x44F, 0x439, 0x20, 0x437, 0x430, 0x431, 0x43E, 0x442, 0x443,
      0x2E]"

definition prompt_professional :: jsstring where
  \<comment> \<open>148 UTF-16 code units; in English: "You are a business consultant. Answer in Russian officially, in a businesslike and competent way. Give precise information, practical advice and expert assessments."\<close>
  "prompt_professional =
     [0x422, 0x44B, 0x20, 0x2014, 0x20, 0x431, 0x438, 0x437, 0x43D, 0x435, 0x441, 0x2D,
      0x43A, 0x43E, 0x43D, 0x441, 0x443, 0x43B, 0x44C, 0x442, 0x430, 0x43D, 0x442, 0x2E,
      0x20, 0x41E, 0x442, 0x432, 0x435, 0x447, 0x430, 0x439, 0x20, 0x43D, 0x430, 0x20,
      0x440, 0x443, 0x441, 0x441, 0x43A, 0x43E, 0x43C, 0x20, 0x44F, 0x437, 0x44B, 0x43A,
      0x435, 0x20, 0x43E, 0x444, 0x438, 0x446, 0x438, 0x430, 0x43B, 0x44C, 0x43D, 0x43E,
      0x2C, 0x20, 0x434, 0x435, 0x43B, 0x43E, 0x432, 0x43E, 0x2C, 0x20, 0x43A, 0x43E, 0x43C,
      0x43F, 0x435, 0x442, 0x435, 0x43D, 0x442, 0x43D, 0x43E, 0x2E, 0x20, 0x414, 0x430,
      0x432, 0x430, 0x439, 0x20, 0x442, 0x43E, 0x447, 0x43D, 0x443, 0x44E, 0x20, 0x438,
      0x43D, 0x444, 0x43E, 0x440, 0x43C, 0x430, 0x446, 0x438, 0x44E, 0x2C, 0x20, 0x43F,
      0x440, 0x430, 0x43A, 0x442, 0x438, 0x447, 0x435, 0x441, 0x43A, 0x438, 0x435, 0x20,
      0x441, 0x43E, 0x432, 0x435, 0x442, 0x44B, 0x20, 0x438, 0x20, 0x44D, 0x43A, 0x441,
      0x43F, 0x435, 0x440, 0x442, 0x43D, 0x44B, 0x435, 0x20, 0x43E, 0x446, 0x435, 0x43D,
      0x43A, 0x438, 0x2E]"

definition acknowledgment :: jsstring where
  \<comment> \<open>line 98; in English: "Understood! I will follow this style."\<close>
  "acknowledgment =
     [0x41F, 0x43E, 0x43D, 0x44F, 0x43B, 0x21, 0x20, 0x411, 0x443, 0x434, 0x443, 0x20,
      0x441, 0x43B, 0x435, 0x434, 0x43E, 0x432, 0x430, 0x442, 0x44C, 0x20, 0x44D, 0x442,
      0x43E, 0x43C, 0x443, 0x20, 0x441, 0x442, 0x438, 0x43B, 0x44E, 0x2E]"

definition api_error_text :: jsstring where
  \<comment> \<open>line 143; in English: "API error"\<close>
  "api_error_text =
     [0x41E, 0x448, 0x438, 0x431, 0x43A, 0x430, 0x20, 0x41, 0x50, 0x49]"

definition PERSONALITIES :: "(jsstring \<times> jsstring) list" where
  "PERSONALITIES =
     [(js ''default'', prompt_default), (js ''poet'', prompt_poet),
      (js ''teacher'', prompt_teacher), (js ''friend'', prompt_friend),
      (js ''professional'', prompt_professional)]"

definition MAX_HISTORY_LENGTH :: nat where
  "MAX_HISTORY_LENGTH = 20"

definition MAX_MESSAGE_LENGTH :: nat where
  "MAX_MESSAGE_LENGTH = 4096"

definition known_personas :: "jsstring list" where
  \<comment> \<open>the keys of \<open>PERSONALITIES\<close>\<close>
  "known_personas = map fst PERSONALITIES"

section \<open>Program state\<close>

text \<open>
  The three globals of \<^verbatim>\<open>script.js\<close>, the two entries of \<^verbatim>\<open>localStorage\<close>
  (\<^verbatim>\<open>gemini_api_key\<close>, a plain string, and \<^verbatim>\<open>gemini_chat_data\<close>, a JSON text), and
  what the program does to the page and the network, as far as the properties below
  look at it: the content of the message box, the list of messages put on the page, the
  two panels shown or hidden, and the requests handed to \<^verbatim>\<open>fetch\<close>. The elements the
  script looks up by id are those of its page and are taken to exist; reads and writes
  of the local store are taken to succeed. A message put on the page is kept as the
  value that was given; the page converts it to text, and that conversion can throw.
  Notifications, timers, the context gauge, styling and the console are presentation
  only and are left out.
\<close>

datatype shown =
    Content jsval      \<comment> \<open>a value given to the page as message text\<close>
  | Failure js_error   \<comment> \<open>the error line: the prefix of line 75 followed by the error's message\<close>

record request =
  url :: jsstring
  body :: json_text

record state =
  conversationHistory :: jsval
  currentPersonality :: jsval
  isLoading :: bool
  gemini_api_key :: "jsstring option"
  gemini_chat_data :: "json_text option"
  message_input :: jsstring
  chat_messages :: "(jsstring \<times> shown) list"
  welcome_visible :: bool
  settings_visible :: bool
  active_button :: bool
  fetched :: "request list"

datatype fetch_result =
    Rejected              \<comment> \<open>no response: \<^verbatim>\<open>fetch\<close> rejects\<close>
  | Response bool json_text    \<comment> \<open>\<^verbatim>\<open>response.ok\<close> and the body\<close>

definition getApiKey :: "state \<Rightarrow> jsstring" where
  "getApiKey st = (case gemini_api_key st of Some k \<Rightarrow> if k \<noteq> [] then k else [] | None \<Rightarrow> [])"

definition setApiKey :: "jsstring \<Rightarrow> state \<Rightarrow> state" where
  "setApiKey apiKey st = st\<lparr>gemini_api_key := Some apiKey\<rparr>"

definition hasApiKey :: "state \<Rightarrow> bool" where
  "hasApiKey st = (let key = getApiKey st in key \<noteq> [] \<and> 0 < length key)"

definition removeApiKey :: "state \<Rightarrow> state" where
  "removeApiKey st = st\<lparr>gemini_api_key := None\<rparr>"

definition fresh :: "jsstring option \<Rightarrow> json_text option \<Rightarrow> state" where
  \<comment> \<open>the state when the script has been read (lines 2-4), over a given local store\<close>
  "fresh key saved =
     \<lparr>conversationHistory = JArr [], currentPersonality = JStr (js ''default''),
      isLoading = False, gemini_api_key = key, gemini_chat_data = saved,
      message_input = [], chat_messages = [], welcome_visible = True,
      settings_visible = False, active_button = False, fetched = []\<rparr>"

section \<open>Conversation state (\<^verbatim>\<open>script.js\<close>)\<close>

definition showWelcomeMessage :: "state \<Rightarrow> state" where
  "showWelcomeMessage st = st\<lparr>welcome_visible := True\<rparr>"

definition hideWelcomeMessage :: "state \<Rightarrow> state" where
  "hideWelcomeMessage st = st\<lparr>welcome_visible := False\<rparr>"

definition showSettings :: "state \<Rightarrow> state" where
  "showSettings st = st\<lparr>settings_visible := True\<rparr>"

definition showApiKeyDialog :: "state \<Rightarrow> state" where
  "showApiKeyDialog st = showSettings st"

definition text_conversion :: "platform \<Rightarrow> shown \<Rightarrow> js_error option" where
  \<comment> \<open>Line 165 assigns the content to \<^verbatim>\<open>textContent\<close>, which converts it to a string
      (\<open>null\<close> and \<open>undefined\<close> become the empty text): the exception of that
      conversion, if there is one. The error line is a string already.\<close>
  "text_conversion pf content =
     (case content of
        Content v \<Rightarrow> (case ToString pf v of Inl e \<Rightarrow> Some e | Inr s \<Rightarrow> None)
      | Failure e \<Rightarrow> None)"

definition addMessage :: "platform \<Rightarrow> jsstring \<Rightarrow> shown \<Rightarrow> state \<Rightarrow> state \<times> js_error option" where
  \<comment> \<open>Lines 151-177: the welcome message is hidden (lines 155-158) before the content is
      converted (line 165); the message is put on the page after it (line 173).\<close>
  "addMessage pf type content st =
     (let st1 = st\<lparr>welcome_visible := False\<rparr> in
      case text_conversion pf content of
        Some e \<Rightarrow> (st1, Some e)
      | None \<Rightarrow> (st1\<lparr>chat_messages := chat_messages st1 @ [(type, content)]\<rparr>, None))"

definition enableInput :: "state \<Rightarrow> state" where
  "enableInput st = st\<lparr>isLoading := False\<rparr>"

definition disableInput :: "state \<Rightarrow> state" where
  "disableInput st = st\<lparr>isLoading := True\<rparr>"

definition saveData :: "state \<Rightarrow> state" where
  "saveData st =
     st\<lparr>gemini_chat_data :=
          Some (JSON_stringify
                 (JObj [(js ''conversationHistory'', conversationHistory st),
                        (js ''currentPersonality'', currentPersonality st)]))\<rparr>"

definition personality_selector :: "jsstring \<Rightarrow> jsstring" where
  \<comment> \<open>the selector of line 187: \<^verbatim>\<open>[data-personality="\<close>, the id, \<^verbatim>\<open>"]\<close>\<close>
  "personality_selector s = js ''[data-personality='' @ [0x22] @ s @ [0x22] @ js '']''"

definition changePersonality :: "platform \<Rightarrow> jsval \<Rightarrow> state \<Rightarrow> state \<times> js_error option" where
  \<comment> \<open>Lines 180-195. The selector is built from the id by a template, which converts
      the id to a string; both that and the lookup can throw, before the assignment.\<close>
  "changePersonality pf personality st =
     (let st1 = st\<lparr>active_button := False\<rparr> in
      case and_then (ToString pf personality)
             (\<lambda>s. querySelector pf (personality_selector s))
      of
        Inl e \<Rightarrow> (st1, Some e)
      | Inr selectedBtn \<Rightarrow>
          (saveData (st1\<lparr>active_button := selectedBtn, currentPersonality := personality\<rparr>),
           None))"

definition clearContext :: "state \<Rightarrow> state" where
  "clearContext st =
     saveData (showWelcomeMessage (st\<lparr>conversationHistory := JArr [], chat_messages := []\<rparr>))"

subsection \<open>Restoring the saved snapshot\<close>

definition num_less :: "platform \<Rightarrow> rat \<Rightarrow> jsval \<Rightarrow> js_error + bool" where
  \<comment> \<open>\<^verbatim>\<open>n < v\<close> (and \<^verbatim>\<open>v > n\<close>) for a number \<open>n\<close>: false when \<open>v\<close> converts to NaN\<close>
  "num_less pf n v =
     and_then (ToNumber pf v) (\<lambda>x. Inr (case x of None \<Rightarrow> False | Some r \<Rightarrow> n < r))"

definition message_text :: "platform \<Rightarrow> jsval \<Rightarrow> js_error + jsval" where
  \<comment> \<open>\<^verbatim>\<open>v.parts[0].text\<close>\<close>
  "message_text pf v =
     and_then (get v (js ''parts'')) (\<lambda>parts.
     and_then (index pf parts 0) (\<lambda>part. get part (js ''text'')))"

definition restore_pair :: "platform \<Rightarrow> jsval \<Rightarrow> nat \<Rightarrow> state \<Rightarrow> state \<times> js_error option" where
  \<comment> \<open>Lines 316-319, the body of the loop; \<open>h\<close> is \<^verbatim>\<open>conversationHistory\<close>.\<close>
  "restore_pair pf h i st =
     (case index pf h i of
        Inl e \<Rightarrow> (st, Some e)
      | Inr a \<Rightarrow>
          if \<not> truthy a then (st, None)
          else (case index pf h (i + 1) of
             Inl e \<Rightarrow> (st, Some e)
           | Inr b \<Rightarrow>
               if \<not> truthy b then (st, None)
               else (case message_text pf a of
                  Inl e \<Rightarrow> (st, Some e)
                | Inr t \<Rightarrow>
                    (case addMessage pf (js ''user'') (Content t) st of
                       (st1, Some e) \<Rightarrow> (st1, Some e)
                     | (st1, None) \<Rightarrow>
                         (case message_text pf b of
                            Inl e \<Rightarrow> (st1, Some e)
                          | Inr u \<Rightarrow> addMessage pf (js ''bot'') (Content u) st1)))))"

definition loop_bound :: "platform \<Rightarrow> jsval \<Rightarrow> nat" where
  \<comment> \<open>the first index at or beyond \<^verbatim>\<open>h.length\<close> (for the termination of the loop)\<close>
  "loop_bound pf h =
     (case and_then (get_length h) (ToNumber pf) of
        Inr (Some r) \<Rightarrow> nat \<lceil>r\<rceil>
      | _ \<Rightarrow> 0)"

function restore_loop :: "platform \<Rightarrow> jsval \<Rightarrow> nat \<Rightarrow> state \<Rightarrow> state \<times> js_error option" where
  \<comment> \<open>Line 315: \<^verbatim>\<open>for (let i = 0; i < conversationHistory.length; i += 2)\<close>. The loop does
      not assign \<^verbatim>\<open>conversationHistory\<close>, passed as \<open>h\<close>.\<close>
  "restore_loop pf h i st =
     (case and_then (get_length h) (num_less pf (of_nat i)) of
        Inl e \<Rightarrow> (st, Some e)
      | Inr again \<Rightarrow>
          if again
          then (case restore_pair pf h i st of
                  (st', Some e) \<Rightarrow> (st', Some e)
                | (st', None) \<Rightarrow> restore_loop pf h (i + 2) st')
          else (st, None))"
  by pat_completeness auto

definition restore_messages :: "platform \<Rightarrow> state \<Rightarrow> state \<times> js_error option" where
  \<comment> \<open>Lines 313-321.\<close>
  "restore_messages pf st =
     (case and_then (get_length (conversationHistory st)) (num_less pf 0) of
        Inl e \<Rightarrow> (st, Some e)
      | Inr nonempty \<Rightarrow>
          if nonempty
          then restore_loop pf (conversationHistory st) 0 (hideWelcomeMessage st)
          else (st, None))"

definition restore :: "platform \<Rightarrow> jsval \<Rightarrow> state \<Rightarrow> state \<times> js_error option" where
  \<comment> \<open>Lines 306-321, the part of the \<^verbatim>\<open>try\<close> block after the parse.\<close>
  "restore pf data st =
     (case get data (js ''conversationHistory'') of
        Inl e \<Rightarrow> (st, Some e)
      | Inr h \<Rightarrow>
          (let st1 = st\<lparr>conversationHistory := js_or h (JArr [])\<rparr> in
           case get data (js ''currentPersonality'') of
             Inl e \<Rightarrow> (st1, Some e)
           | Inr p \<Rightarrow>
               (let st2 = st1\<lparr>currentPersonality := js_or p (JStr (js ''default''))\<rparr> in
                case changePersonality pf (currentPersonality st2) st2 of
                  (st3, Some e) \<Rightarrow> (st3, Some e)
                | (st3, None) \<Rightarrow> restore_messages pf st3)))"

definition loadSavedData :: "platform \<Rightarrow> state \<Rightarrow> state" where
  \<comment> \<open>Lines 301-326. The \<^verbatim>\<open>catch\<close> block only logs, so whatever the \<^verbatim>\<open>try\<close> block
      did before an exception stays.\<close>
  "loadSavedData pf st =
     (case gemini_chat_data st of
        None \<Rightarrow> st
      | Some savedData \<Rightarrow>
          if savedData = Blank then st
          else (case JSON_parse savedData of
                  Inl e \<Rightarrow> st
                | Inr data \<Rightarrow> fst (restore pf data st)))"

definition onload :: "platform \<Rightarrow> state \<Rightarrow> state" where
  \<comment> \<open>Lines 7-19.\<close>
  "onload pf st =
     loadSavedData pf
       (if \<not> hasApiKey st then showWelcomeMessage st else enableInput (hideWelcomeMessage st))"

section \<open>Request assembly and the exchange (\<^verbatim>\<open>script.js\<close>)\<close>

definition turn :: "jsstring \<Rightarrow> jsval \<Rightarrow> jsval" where
  \<comment> \<open>\<^verbatim>\<open>{ role: r, parts: [{ text: t }] }\<close>\<close>
  "turn r t = JObj [(js ''role'', JStr r), (js ''parts'', JArr [JObj [(js ''text'', t)]])]"

definition PERSONALITIES_get :: "platform \<Rightarrow> jsval \<Rightarrow> js_error + jsval" where
  \<comment> \<open>\<^verbatim>\<open>CONFIG.PERSONALITIES[key]\<close>: the key is converted to a string. A key that names
      a member of \<^verbatim>\<open>Object.prototype\<close> reads that built-in, which is not a value of
      the model; in the request body a function is left out exactly as \<open>undefined\<close>
      is, and the prototype object itself (\<^verbatim>\<open>__proto__\<close>) is written as an empty
      object.\<close>
  "PERSONALITIES_get pf key =
     and_then (ToString pf key) (\<lambda>k. Inr
       (case map_of PERSONALITIES k of
          Some s \<Rightarrow> JStr s
        | None \<Rightarrow> if k = js ''__proto__'' then JObj [] else JUndefined))"

definition build_contents :: "platform \<Rightarrow> jsstring \<Rightarrow> state \<Rightarrow> js_error + jsval list" where
  \<comment> \<open>Lines 88-108.\<close>
  "build_contents pf message st =
     and_then (PERSONALITIES_get pf (currentPersonality st)) (\<lambda>systemPrompt.
     and_then (spread (conversationHistory st)) (\<lambda>history.
       Inr ([turn (js ''user'') systemPrompt, turn (js ''model'') (JStr acknowledgment)]
            @ history
            @ [turn (js ''user'') (JStr message)])))"

definition safetySettings :: jsval where
  "safetySettings =
     JArr (map (\<lambda>category.
                  JObj [(js ''category'', JStr (js category)),
                        (js ''threshold'', JStr (js ''BLOCK_MEDIUM_AND_ABOVE''))])
             [''HARM_CATEGORY_HARASSMENT'', ''HARM_CATEGORY_HATE_SPEECH'',
              ''HARM_CATEGORY_SEXUALLY_EXPLICIT'', ''HARM_CATEGORY_DANGEROUS_CONTENT''])"

definition callGeminiAPI_request :: "platform \<Rightarrow> jsstring \<Rightarrow> state \<Rightarrow> js_error + request" where
  \<comment> \<open>Lines 84-139: what is handed to \<^verbatim>\<open>fetch\<close>.\<close>
  "callGeminiAPI_request pf message st =
     and_then (build_contents pf message st) (\<lambda>contents. Inr
       \<lparr>url = GEMINI_API_URL @ js ''?key='' @ getApiKey st,
        body = JSON_stringify
                 (JObj [(js ''contents'', JArr contents),
                        (js ''generationConfig'', MODEL_CONFIG),
                        (js ''safetySettings'', safetySettings)])\<rparr>)"

definition new_Error :: "platform \<Rightarrow> jsval \<Rightarrow> js_error" where
  \<comment> \<open>\<^verbatim>\<open>throw new Error(v)\<close>: the constructor converts its argument to a string\<close>
  "new_Error pf v = (case ToString pf v of Inl e \<Rightarrow> e | Inr s \<Rightarrow> Error s)"

definition callGeminiAPI_result :: "platform \<Rightarrow> fetch_result \<Rightarrow> js_error + jsval" where
  \<comment> \<open>Lines 141-147: what the call makes of the outcome of \<^verbatim>\<open>fetch\<close>.\<close>
  "callGeminiAPI_result pf r =
     (case r of
        Rejected \<Rightarrow> Inl TypeError
      | Response ok payload \<Rightarrow>
          if \<not> ok
          then and_then (JSON_parse payload) (\<lambda>errorData.
               and_then (get errorData (js ''error'')) (\<lambda>err.
               and_then (if err = JUndefined \<or> err = JNull then Inr JUndefined
                         else get err (js ''message'')) (\<lambda>m.
                 Inl (new_Error pf (js_or m (JStr api_error_text))))))
          else and_then (JSON_parse payload) (\<lambda>data.
               and_then (get data (js ''candidates'')) (\<lambda>candidates.
               and_then (index pf candidates 0) (\<lambda>candidate.
               and_then (get candidate (js ''content'')) (\<lambda>content.
               and_then (get content (js ''parts'')) (\<lambda>parts.
               and_then (index pf parts 0) (\<lambda>part.
                 get part (js ''text''))))))))"

definition record_exchange :: "platform \<Rightarrow> jsstring \<Rightarrow> jsval \<Rightarrow> state \<Rightarrow> state \<times> js_error option" where
  \<comment> \<open>Lines 59-71, after the reply has arrived.\<close>
  "record_exchange pf message response st =
     (case addMessage pf (js ''bot'') (Content response) st of
        (st1, Some e) \<Rightarrow> (st1, Some e)
      | (st1, None) \<Rightarrow>
          (case push (conversationHistory st1) (turn (js ''user'') (JStr message)) of
             Inl e \<Rightarrow> (st1, Some e)
           | Inr h1 \<Rightarrow>
               (case push h1 (turn (js ''model'') response) of
                  Inl e \<Rightarrow> (st1\<lparr>conversationHistory := h1\<rparr>, Some e)
                | Inr h2 \<Rightarrow>
                    (saveData
                       (st1\<lparr>conversationHistory :=
                              (case h2 of
                                 JArr xs \<Rightarrow>
                                   if length xs > MAX_HISTORY_LENGTH
                                   then JArr (slice_last MAX_HISTORY_LENGTH xs) else h2
                               | _ \<Rightarrow> h2)\<rparr>),
                     None))))"

definition sendMessage_catch :: "platform \<Rightarrow> js_error \<Rightarrow> state \<Rightarrow> state" where
  \<comment> \<open>Lines 73-76. The error line is a string, which \<open>addMessage\<close> always accepts.\<close>
  "sendMessage_catch pf error st = fst (addMessage pf (js ''bot'') (Failure error) st)"

definition sendMessage_end :: "state \<Rightarrow> state" where
  \<comment> \<open>Lines 78-79.\<close>
  "sendMessage_end st = enableInput (st\<lparr>message_input := []\<rparr>)"

text \<open>
  \<^verbatim>\<open>sendMessage\<close> is asynchronous: it runs up to the call of \<^verbatim>\<open>fetch\<close>, and goes on
  when the outcome is there. \<open>sendMessage_start\<close> is the first part; it says whether a
  request is now in flight, and for which message. \<open>sendMessage_resume\<close> is the second
  part. \<open>sendMessage\<close> is one after the other, with no other event in between.
\<close>

datatype pending = Finished | Awaiting jsstring

definition sendMessage_start :: "platform \<Rightarrow> state \<Rightarrow> state \<times> pending" where
  \<comment> \<open>Lines 43-58 and, inside \<^verbatim>\<open>callGeminiAPI\<close>, 84-139. Lines 54-55 stand before the
      \<^verbatim>\<open>try\<close>: an exception there would leave the function at once.\<close>
  "sendMessage_start pf st =
     (let message = trim (message_input st) in
      if message = [] \<or> isLoading st then (st, Finished)
      else if \<not> hasApiKey st then (showApiKeyDialog st, Finished)
      else
        (case addMessage pf (js ''user'') (Content (JStr message)) (disableInput st) of
           (st1, Some error) \<Rightarrow> (st1, Finished)
         | (st1, None) \<Rightarrow>
             (case callGeminiAPI_request pf message st1 of
                Inl error \<Rightarrow> (sendMessage_end (sendMessage_catch pf error st1), Finished)
              | Inr req \<Rightarrow> (st1\<lparr>fetched := fetched st1 @ [req]\<rparr>, Awaiting message))))"

definition sendMessage_resume :: "platform \<Rightarrow> jsstring \<Rightarrow> fetch_result \<Rightarrow> state \<Rightarrow> state" where
  \<comment> \<open>Lines 141-147 of \<^verbatim>\<open>callGeminiAPI\<close>, then lines 59-79.\<close>
  "sendMessage_resume pf message r st =
     sendMessage_end
       (case callGeminiAPI_result pf r of
          Inl error \<Rightarrow> sendMessage_catch pf error st
        | Inr response \<Rightarrow>
            (case record_exchange pf message response st of
               (st', Some error) \<Rightarrow> sendMessage_catch pf error st'
             | (st', None) \<Rightarrow> st'))"

definition sendMessage :: "platform \<Rightarrow> fetch_result \<Rightarrow> state \<Rightarrow> state" where
  "sendMessage pf r st =
     (case sendMessage_start pf st of
        (st', Finished) \<Rightarrow> st'
      | (st', Awaiting message) \<Rightarrow> sendMessage_resume pf message r st')"

section \<open>Notions and examples for the statements\<close>

text \<open>
  What the statements below speak of beyond the program itself: a run of exchanges, what
  a request carries, the fields of a payload read leniently, the values JSON can carry,
  what a replay in pairs shows; and the inputs of the worked examples.
\<close>

definition preamble :: "jsstring \<Rightarrow> jsstring" where
  \<comment> \<open>the preamble configured for a persona id\<close>
  "preamble p = (case map_of PERSONALITIES p of Some s \<Rightarrow> s | None \<Rightarrow> [])"

definition test_platform :: platform where
  \<comment> \<open>a browser for the worked examples: its page has no personality buttons and accepts
      every selector\<close>
  "test_platform =
     \<lparr>NumberToString = (\<lambda>r. []), StringToNumber = (\<lambda>s. None),
      querySelector = (\<lambda>s. Inr False)\<rparr>"

fun exchanges :: "platform \<Rightarrow> (jsstring \<times> fetch_result) list \<Rightarrow> state \<Rightarrow> state" where
  \<comment> \<open>a run of exchanges: the user fills the message box and sends, and the outcome of
      the request arrives, one exchange after the other\<close>
  "exchanges pf [] st = st"
| "exchanges pf ((typed, r) # rest) st =
     exchanges pf rest (sendMessage pf r (st\<lparr>message_input := typed\<rparr>))"

definition succeeds :: "platform \<Rightarrow> jsstring \<times> fetch_result \<Rightarrow> bool" where
  \<comment> \<open>the typed text is not blank, the call returns a reply, and the page takes the reply
      as a message (line 59): then lines 62-63 are reached\<close>
  "succeeds pf x =
     (trim (fst x) \<noteq> []
      \<and> (case callGeminiAPI_result pf (snd x) of
           Inl e \<Rightarrow> False
         | Inr response \<Rightarrow> text_conversion pf (Content response) = None))"

definition exchange_turns :: "platform \<Rightarrow> jsstring \<times> fetch_result \<Rightarrow> jsval list" where
  \<comment> \<open>the two turns of an exchange: what was sent and what came back\<close>
  "exchange_turns pf x =
     [turn (js ''user'') (JStr (trim (fst x))),
      turn (js ''model'') (projr (callGeminiAPI_result pf (snd x)))]"

definition reply_with :: "jsval \<Rightarrow> fetch_result" where
  \<comment> \<open>a success response \<^verbatim>\<open>{candidates: [{content: {parts: [{text: t}]}}]}\<close>\<close>
  "reply_with t =
     Response True
       (Json (JObj [(js ''candidates'',
                JArr [JObj [(js ''content'',
                  JObj [(js ''parts'', JArr [JObj [(js ''text'', t)]])])]])]))"

definition request_contents :: "request \<Rightarrow> js_error + jsval list" where
  \<comment> \<open>the message list a request carries, as the receiver reads it from the body\<close>
  "request_contents req =
     and_then (JSON_parse (body req)) (\<lambda>data.
     and_then (get data (js ''contents'')) spread)"

definition or_undefined :: "js_error + jsval \<Rightarrow> jsval" where
  \<comment> \<open>a path read leniently: \<open>undefined\<close> where a step is missing\<close>
  "or_undefined r = (case r of Inl e \<Rightarrow> JUndefined | Inr v \<Rightarrow> v)"

definition payload_error_message :: "jsval \<Rightarrow> jsval" where
  \<comment> \<open>the field \<^verbatim>\<open>error.message\<close> of a payload, \<open>undefined\<close> when the payload has no
      \<^verbatim>\<open>error\<close> or the error no \<^verbatim>\<open>message\<close>\<close>
  "payload_error_message d =
     or_undefined (and_then (get d (js ''error'')) (\<lambda>e. get e (js ''message'')))"

definition first_part :: "platform \<Rightarrow> jsval \<Rightarrow> jsval" where
  \<comment> \<open>\<^verbatim>\<open>candidates[0].content.parts[0]\<close> of a payload, \<open>undefined\<close> when a step of the
      path is missing\<close>
  "first_part pf d =
     or_undefined
       (and_then (get d (js ''candidates'')) (\<lambda>candidates.
        and_then (index pf candidates 0) (\<lambda>candidate.
        and_then (get candidate (js ''content'')) (\<lambda>content.
        and_then (get content (js ''parts'')) (\<lambda>parts. index pf parts 0)))))"

definition nullish :: "jsval \<Rightarrow> bool" where
  "nullish v = (v = JUndefined \<or> v = JNull)"

definition quota_payload :: jsval where
  \<comment> \<open>the error payload \<^verbatim>\<open>{error: {message: "quota exceeded"}}\<close>\<close>
  "quota_payload = JObj [(js ''error'', JObj [(js ''message'', JStr (js ''quota exceeded''))])]"

fun json_value :: "jsval \<Rightarrow> bool" where
  \<comment> \<open>a value that a JSON text can carry: no \<open>undefined\<close> inside\<close>
  "json_value JUndefined = False"
| "json_value (JArr xs) = list_all json_value xs"
| "json_value (JObj kvs) = list_all (\<lambda>kv. json_value (snd kv)) kvs"
| "json_value v = True"

definition chatted :: state where
  \<comment> \<open>a page after one exchange under the persona \<open>friend\<close>\<close>
  "chatted =
     fresh None None
       \<lparr>conversationHistory :=
          JArr [turn (js ''user'') (JStr (js ''Hello'')),
                turn (js ''model'') (JStr (js ''Hi there''))],
        currentPersonality := JStr (js ''friend'')\<rparr>"



definition textless :: state where
  \<comment> \<open>a page after an exchange whose reply part has no text:
      \<^verbatim>\<open>{candidates: [{content: {parts: [{}]}}]}\<close>\<close>
  "textless =
     sendMessage test_platform
       (Response True (Json (JObj [(js ''candidates'', JArr [JObj [(js ''content'',
          JObj [(js ''parts'', JArr [JObj []])])]])])))
       (fresh (Some (js ''key'')) None\<lparr>message_input := js ''Hello''\<rparr>)"



section \<open>Termination of the restoring loop\<close>

lemma num_less_loop_bound:
  assumes "and_then (get_length h) (num_less pf (of_nat i)) = Inr True"
  shows "i < loop_bound pf h"
proof -
  from assms obtain l r where "get_length h = Inr l" "ToNumber pf l = Inr (Some r)" "of_nat i < r"
    by (auto simp: and_then_def num_less_def split: sum.splits option.splits)
  moreover from \<open>of_nat i < r\<close> have "i < nat \<lceil>r\<rceil>"
    by linarith
  ultimately show ?thesis
    by (simp add: loop_bound_def and_then_def)
qed

termination restore_loop
  by (relation "measure (\<lambda>(pf, h, i, st). loop_bound pf h - i)")
     (auto dest: num_less_loop_bound)

declare restore_loop.simps [simp del]

section \<open>Request assembly\<close>

lemma known_persona_preamble:
  assumes "p \<in> set known_personas"
  shows "map_of PERSONALITIES p = Some (preamble p)"
proof -
  from assms have "p \<in> fst ` set PERSONALITIES" by (simp add: known_personas_def)
  then obtain s where "map_of PERSONALITIES p = Some s"
    by (meson weak_map_of_SomeI domD domI image_iff prod.collapse map_of_eq_None_iff not_None_eq)
  then show ?thesis by (simp add: preamble_def)
qed

text \<open>
  C3. For every history \<open>h\<close>, every persona \<open>p\<close> of the known set and every message text
  \<open>m\<close>, the message list assembled for the request is: an entry with role \<open>user\<close> whose
  one part has as text the preamble configured for \<open>p\<close>, an entry with role \<open>model\<close>
  whose one part has as text the fixed acknowledgment, the entries of \<open>h\<close> in order, and
  an entry with role \<open>user\<close> whose one part has as text \<open>m\<close>; its length is
  \<open>2 + length h + 1\<close>. The first two entries are there for every persona; only the text
  of the first depends on it.
\<close>

theorem build_contents_shape:
  assumes "p \<in> set known_personas"
    and "currentPersonality st = JStr p"
    and "conversationHistory st = JArr h"
  shows "build_contents pf m st =
           Inr ([JObj [(js ''role'', JStr (js ''user'')),
                       (js ''parts'', JArr [JObj [(js ''text'', JStr (preamble p))]])],
                 JObj [(js ''role'', JStr (js ''model'')),
                       (js ''parts'', JArr [JObj [(js ''text'', JStr acknowledgment)]])]]
                @ h
                @ [JObj [(js ''role'', JStr (js ''user'')),
                         (js ''parts'', JArr [JObj [(js ''text'', JStr m)]])]])
         \<and> (p, preamble p) \<in> set PERSONALITIES
         \<and> length (projr (build_contents pf m st)) = 2 + length h + 1"
proof -
  have pre: "map_of PERSONALITIES p = Some (preamble p)"
    using assms(1) by (rule known_persona_preamble)
  then have "(p, preamble p) \<in> set PERSONALITIES" by (rule map_of_SomeD)
  moreover have "build_contents pf m st =
           Inr ([JObj [(js ''role'', JStr (js ''user'')),
                       (js ''parts'', JArr [JObj [(js ''text'', JStr (preamble p))]])],
                 JObj [(js ''role'', JStr (js ''model'')),
                       (js ''parts'', JArr [JObj [(js ''text'', JStr acknowledgment)]])]]
                @ h
                @ [JObj [(js ''role'', JStr (js ''user'')),
                         (js ''parts'', JArr [JObj [(js ''text'', JStr m)]])]])"
    using assms(2,3) pre
    by (simp add: build_contents_def PERSONALITIES_get_def and_then_def spread_def turn_def)
  ultimately show ?thesis by simp
qed

theorem build_contents_shape_witness:
  "js ''friend'' \<in> set known_personas
   \<and> (js ''friend'', prompt_friend) \<in> set PERSONALITIES
   \<and> build_contents test_platform (js ''Bye'')
        (fresh None None
           \<lparr>conversationHistory :=
              JArr [JObj [(js ''role'', JStr (js ''user'')),
                          (js ''parts'', JArr [JObj [(js ''text'', JStr (js ''Hello''))]])],
                    JObj [(js ''role'', JStr (js ''model'')),
                          (js ''parts'', JArr [JObj [(js ''text'', JStr (js ''Hi there''))]])]],
            currentPersonality := JStr (js ''friend'')\<rparr>) =
       Inr [JObj [(js ''role'', JStr (js ''user'')),
                  (js ''parts'', JArr [JObj [(js ''text'', JStr prompt_friend)]])],
            JObj [(js ''role'', JStr (js ''model'')),
                  (js ''parts'', JArr [JObj [(js ''text'', JStr acknowledgment)]])],
            JObj [(js ''role'', JStr (js ''user'')),
                  (js ''parts'', JArr [JObj [(js ''text'', JStr (js ''Hello''))]])],
            JObj [(js ''role'', JStr (js ''model'')),
                  (js ''parts'', JArr [JObj [(js ''text'', JStr (js ''Hi there''))]])],
            JObj [(js ''role'', JStr (js ''user'')),
                  (js ''parts'', JArr [JObj [(js ''text'', JStr (js ''Bye''))]])]]"
proof -
  let ?h = "[JObj [(js ''role'', JStr (js ''user'')),
                   (js ''parts'', JArr [JObj [(js ''text'', JStr (js ''Hello''))]])],
             JObj [(js ''role'', JStr (js ''model'')),
                   (js ''parts'', JArr [JObj [(js ''text'', JStr (js ''Hi there''))]])]]"
  let ?st = "fresh None None
           \<lparr>conversationHistory := JArr ?h, currentPersonality := JStr (js ''friend'')\<rparr>"
  have k: "js ''friend'' \<in> set known_personas"
    by (simp add: known_personas_def PERSONALITIES_def js_def)
  have p: "preamble (js ''friend'') = prompt_friend"
    by (simp add: preamble_def PERSONALITIES_def js_def)
  have s: "currentPersonality ?st = JStr (js ''friend'')" "conversationHistory ?st = JArr ?h"
    by simp_all
  from build_contents_shape [OF k s, of test_platform "js ''Bye''"] k p
  show ?thesis by simp
qed

section \<open>The history bound\<close>

lemma hasApiKey_cong:
  "gemini_api_key st' = gemini_api_key st \<Longrightarrow> hasApiKey st' = hasApiKey st"
  by (simp add: hasApiKey_def getApiKey_def)

lemma text_conversion_simps [simp]:
  "text_conversion pf (Content (JStr s)) = None"
  "text_conversion pf (Content JUndefined) = None"
  "text_conversion pf (Failure e) = None"
  by (simp_all add: text_conversion_def)

lemma addMessage_fields [simp]:
  "conversationHistory (fst (addMessage pf t c st)) = conversationHistory st"
  "currentPersonality (fst (addMessage pf t c st)) = currentPersonality st"
  "isLoading (fst (addMessage pf t c st)) = isLoading st"
  "gemini_api_key (fst (addMessage pf t c st)) = gemini_api_key st"
  "gemini_chat_data (fst (addMessage pf t c st)) = gemini_chat_data st"
  "fetched (fst (addMessage pf t c st)) = fetched st"
  "settings_visible (fst (addMessage pf t c st)) = settings_visible st"
  by (simp_all add: addMessage_def Let_def split: option.splits)

lemma addMessage_accepted:
  assumes "text_conversion pf c = None"
  shows "snd (addMessage pf t c st) = None"
    and "chat_messages (fst (addMessage pf t c st)) = chat_messages st @ [(t, c)]"
  using assms by (simp_all add: addMessage_def Let_def)

lemma addMessage_refused:
  assumes "text_conversion pf c = Some e"
  shows "snd (addMessage pf t c st) = Some e"
    and "chat_messages (fst (addMessage pf t c st)) = chat_messages st"
  using assms by (simp_all add: addMessage_def Let_def)

lemma addMessage_split:
  obtains st1 where "addMessage pf t c st = (st1, text_conversion pf c)"
    and "fst (addMessage pf t c st) = st1"
  by (cases "text_conversion pf c") (simp_all add: addMessage_def Let_def)

lemma callGeminiAPI_request_ok:
  assumes "currentPersonality st = JStr p" and "conversationHistory st = JArr h"
  shows "\<exists>req. callGeminiAPI_request pf m st = Inr req"
    using assms
    by (simp add: callGeminiAPI_request_def build_contents_def PERSONALITIES_get_def
        and_then_def spread_def)

lemma sendMessage_start_ok:
  fixes pf :: platform
  assumes "trim (message_input st) \<noteq> []" and "\<not> isLoading st" and "hasApiKey st"
    and "currentPersonality st = JStr p" and "conversationHistory st = JArr h"
  defines "st1 \<equiv>
    fst (addMessage pf (js ''user'') (Content (JStr (trim (message_input st)))) (disableInput st))"
  shows "sendMessage_start pf st =
      (st1\<lparr>fetched := fetched st1 @ [projr (callGeminiAPI_request pf (trim (message_input st)) st1)]\<rparr>,
       Awaiting (trim (message_input st)))"
proof -
  let ?m = "trim (message_input st)"
  have "currentPersonality st1 = JStr p" "conversationHistory st1 = JArr h"
    using assms(4,5) by (simp_all add: st1_def disableInput_def)
  then obtain req where req: "callGeminiAPI_request pf ?m st1 = Inr req"
    using callGeminiAPI_request_ok by blast
  obtain st1' where "addMessage pf (js ''user'') (Content (JStr ?m)) (disableInput st) =
      (st1', text_conversion pf (Content (JStr ?m)))"
    and "fst (addMessage pf (js ''user'') (Content (JStr ?m)) (disableInput st)) = st1'"
    by (rule addMessage_split)
  then have "addMessage pf (js ''user'') (Content (JStr ?m)) (disableInput st) = (st1, None)"
    by (simp add: st1_def)
  with req show ?thesis
    using assms(1,2,3) by (simp add: sendMessage_start_def Let_def)
qed

lemma record_exchange_array:
  assumes "conversationHistory st = JArr h" and "text_conversion pf (Content response) = None"
  shows "record_exchange pf m response st =
     (saveData (fst (addMessage pf (js ''bot'') (Content response) st)
        \<lparr>conversationHistory :=
           JArr (slice_last MAX_HISTORY_LENGTH
                  (h @ [turn (js ''user'') (JStr m), turn (js ''model'') response]))\<rparr>), None)"
proof -
  obtain st1 where a: "addMessage pf (js ''bot'') (Content response) st =
      (st1, text_conversion pf (Content response))"
    and f: "fst (addMessage pf (js ''bot'') (Content response) st) = st1"
    by (rule addMessage_split)
  have "conversationHistory st1 = JArr h"
    using assms(1) addMessage_fields(1) [of pf "js ''bot''" "Content response" st] f by simp
  then show ?thesis
    unfolding f by (simp add: record_exchange_def a assms(2) push_def slice_last_def)
qed

lemma record_exchange_refused:
  assumes "text_conversion pf (Content response) = Some e"
  shows "record_exchange pf m response st =
     (fst (addMessage pf (js ''bot'') (Content response) st), Some e)"
proof -
  obtain st1 where a: "addMessage pf (js ''bot'') (Content response) st =
      (st1, text_conversion pf (Content response))"
    and f: "fst (addMessage pf (js ''bot'') (Content response) st) = st1"
    by (rule addMessage_split)
  show ?thesis
    unfolding f by (simp add: record_exchange_def a assms)
qed

lemma sendMessage_resume_ok:
  assumes "conversationHistory st = JArr h" and "callGeminiAPI_result pf r = Inr response"
    and "text_conversion pf (Content response) = None"
  shows "sendMessage_resume pf m r st =
     sendMessage_end (saveData (fst (addMessage pf (js ''bot'') (Content response) st)
        \<lparr>conversationHistory :=
           JArr (slice_last MAX_HISTORY_LENGTH
                  (h @ [turn (js ''user'') (JStr m), turn (js ''model'') response]))\<rparr>))"
  using assms by (simp add: sendMessage_resume_def record_exchange_array)

lemma sendMessage_success:
  assumes "trim typed \<noteq> []" and "\<not> isLoading st" and "hasApiKey st"
    and "currentPersonality st = JStr p" and "conversationHistory st = JArr h"
    and "callGeminiAPI_result pf r = Inr response"
    and "text_conversion pf (Content response) = None"
  defines "st' \<equiv> sendMessage pf r (st\<lparr>message_input := typed\<rparr>)"
  shows "conversationHistory st' =
           JArr (slice_last MAX_HISTORY_LENGTH
                   (h @ [turn (js ''user'') (JStr (trim typed)), turn (js ''model'') response]))"
    and "\<not> isLoading st'"
    and "gemini_api_key st' = gemini_api_key st"
    and "currentPersonality st' = currentPersonality st"
proof -
  let ?st0 = "st\<lparr>message_input := typed\<rparr>"
  let ?st1 = "fst (addMessage pf (js ''user'') (Content (JStr (trim typed))) (disableInput ?st0))"
  let ?st2 = "?st1\<lparr>fetched := fetched ?st1 @ [projr (callGeminiAPI_request pf (trim typed) ?st1)]\<rparr>"
  let ?st3 = "fst (addMessage pf (js ''bot'') (Content response) ?st2)"
  have "hasApiKey ?st0" using assms(3) by (simp add: hasApiKey_def getApiKey_def)
  then have start: "sendMessage_start pf ?st0 = (?st2, Awaiting (trim typed))"
    using sendMessage_start_ok [of ?st0 p h pf] assms(1,2,4,5) by simp
  have "conversationHistory ?st2 = JArr h"
    using assms(5) by (simp add: disableInput_def)
  then have st': "st' = sendMessage_end (saveData (?st3
        \<lparr>conversationHistory :=
           JArr (slice_last MAX_HISTORY_LENGTH
                  (h @ [turn (js ''user'') (JStr (trim typed)), turn (js ''model'') response]))\<rparr>))"
    using assms(6,7) by (simp add: st'_def sendMessage_def start sendMessage_resume_ok)
  show "conversationHistory st' =
           JArr (slice_last MAX_HISTORY_LENGTH
                   (h @ [turn (js ''user'') (JStr (trim typed)), turn (js ''model'') response]))"
    by (simp add: st' sendMessage_end_def enableInput_def saveData_def)
  show "\<not> isLoading st'"
    by (simp add: st' sendMessage_end_def enableInput_def)
  show "gemini_api_key st' = gemini_api_key st"
    by (simp add: st' sendMessage_end_def enableInput_def saveData_def disableInput_def)
  show "currentPersonality st' = currentPersonality st"
    by (simp add: st' sendMessage_end_def enableInput_def saveData_def disableInput_def)
qed

lemma slice_last_append:
  "slice_last n (slice_last n xs @ ys) = slice_last n (xs @ ys)"
proof (cases "length xs \<le> n")
  case True
  then show ?thesis by (simp add: slice_last_def)
next
  case False
  let ?a = "drop (length xs - n) xs"
  from False have la: "length ?a = n" by simp
  have "slice_last n (?a @ ys) = drop (length ys) (?a @ ys)"
    using la by (simp add: slice_last_def)
  also have "\<dots> = drop (length ys + (length xs - n)) xs @ drop (length ys - n) ys"
    using la by simp
  also have "length ys + (length xs - n) = length xs + length ys - n"
    using False by simp
  finally have "slice_last n (?a @ ys) = drop (length xs + length ys - n) xs @ drop (length ys - n) ys" .
  moreover have "slice_last n (xs @ ys) = drop (length xs + length ys - n) xs @ drop (length ys - n) ys"
    using False by (simp add: slice_last_def)
  ultimately show ?thesis by (simp add: slice_last_def)
qed

lemma exchanges_history:
  assumes "\<forall>x \<in> set xs. succeeds pf x" and "\<not> isLoading st" and "hasApiKey st"
    and "currentPersonality st = JStr p" and "conversationHistory st = JArr h"
    and "xs \<noteq> []"
  shows "conversationHistory (exchanges pf xs st) =
           JArr (slice_last MAX_HISTORY_LENGTH (h @ concat (map (exchange_turns pf) xs)))"
  using assms
proof (induction xs arbitrary: st h)
  case Nil
  then show ?case by simp
next
  case (Cons x xs)
  obtain typed r where x: "x = (typed, r)" by (cases x)
  from Cons.prems(1) x obtain response where ok: "trim typed \<noteq> []"
    and res: "callGeminiAPI_result pf r = Inr response"
    and conv: "text_conversion pf (Content response) = None"
    by (cases "callGeminiAPI_result pf r") (auto simp: succeeds_def)
  let ?st' = "sendMessage pf r (st\<lparr>message_input := typed\<rparr>)"
  let ?h' = "slice_last MAX_HISTORY_LENGTH (h @ exchange_turns pf x)"
  note step = sendMessage_success [OF ok Cons.prems(2,3,4,5) res conv]
  have h': "conversationHistory ?st' = JArr ?h'"
    using step(1) by (simp add: exchange_turns_def x res)
  show ?case
  proof (cases "xs = []")
    case True
    then show ?thesis using h' by (simp add: x)
  next
    case False
    have "conversationHistory (exchanges pf xs ?st') =
        JArr (slice_last MAX_HISTORY_LENGTH (?h' @ concat (map (exchange_turns pf) xs)))"
    proof (rule Cons.IH [OF _ _ _ _ h' False])
      show "\<forall>x \<in> set xs. succeeds pf x" using Cons.prems(1) by simp
      show "\<not> isLoading ?st'" by (rule step(2))
      show "hasApiKey ?st'" using hasApiKey_cong [OF step(3)] Cons.prems(3) by simp
      show "currentPersonality ?st' = JStr p" using step(4) Cons.prems(4) by simp
    qed
    then show ?thesis by (simp add: x slice_last_append)
  qed
qed

lemma length_exchange_turns: "length (concat (map (exchange_turns pf) xs)) = 2 * length xs"
  by (induction xs) (simp_all add: exchange_turns_def)

text \<open>
  C2. Start from an empty history and run \<open>N\<close> exchanges that all succeed: the text
  typed is not blank, the call returns a reply, and the reply is put on the page, so that
  its two turns are appended. If \<open>2 N\<close> exceeds the bound of 20, the history has exactly
  20 turns, and they are the last 20 of the turns appended, in the order of appending (the
  first \<open>2 N - 20\<close> are gone).
\<close>

theorem history_keeps_most_recent:
  assumes "conversationHistory st = JArr []" and "\<not> isLoading st" and "hasApiKey st"
    and "currentPersonality st = JStr p"
    and "\<forall>x \<in> set xs. succeeds pf x"
    and "MAX_HISTORY_LENGTH < 2 * length xs"
  shows "conversationHistory (exchanges pf xs st) =
           JArr (drop (2 * length xs - 20) (concat (map (exchange_turns pf) xs)))
         \<and> length (drop (2 * length xs - 20) (concat (map (exchange_turns pf) xs))) = 20
         \<and> MAX_HISTORY_LENGTH = 20"
proof -
  from assms(6) have ne: "xs \<noteq> []" by auto
  have "conversationHistory (exchanges pf xs st) =
      JArr (slice_last MAX_HISTORY_LENGTH ([] @ concat (map (exchange_turns pf) xs)))"
    by (rule exchanges_history [OF assms(5,2,3,4,1) ne])
  then show ?thesis
    using assms(6) by (simp add: slice_last_def length_exchange_turns MAX_HISTORY_LENGTH_def)
qed

lemma callGeminiAPI_result_reply_with: "callGeminiAPI_result pf (reply_with t) = Inr t"
  by (simp add: callGeminiAPI_result_def reply_with_def JSON_parse_def and_then_def get_def
      index_def js_def)

theorem history_keeps_most_recent_witness:
  "conversationHistory
     (exchanges test_platform
        (map (\<lambda>c. ([c], reply_with (JStr (js ''Hi there'')))) (js ''abcdefghijk''))
        (fresh (Some (js ''key'')) None)) =
   JArr (concat (map (\<lambda>c. [turn (js ''user'') (JStr [c]),
                               turn (js ''model'') (JStr (js ''Hi there''))])
                   (js ''bcdefghijk'')))"
proof -
  let ?xs = "map (\<lambda>c. ([c], reply_with (JStr (js ''Hi there'')))) (js ''abcdefghijk'')"
  let ?st = "fresh (Some (js ''key'')) None"
  have 1: "conversationHistory ?st = JArr []" "\<not> isLoading ?st"
    "currentPersonality ?st = JStr (js ''default'')"
    by (simp_all add: fresh_def)
  have 2: "hasApiKey ?st"
    by (simp add: fresh_def hasApiKey_def getApiKey_def js_def)
  have 3: "\<forall>x \<in> set ?xs. succeeds test_platform x"
    by (simp add: succeeds_def callGeminiAPI_result_reply_with js_def trim_def is_space_def)
  have 4: "MAX_HISTORY_LENGTH < 2 * length ?xs"
    by (simp add: MAX_HISTORY_LENGTH_def js_def)
  have 5: "drop (2 * length ?xs - 20) (concat (map (exchange_turns test_platform) ?xs)) =
      concat (map (\<lambda>c. [turn (js ''user'') (JStr [c]),
                            turn (js ''model'') (JStr (js ''Hi there''))])
                (js ''bcdefghijk''))"
    by (simp add: exchange_turns_def callGeminiAPI_result_reply_with
        js_def [of "''abcdefghijk''"] js_def [of "''bcdefghijk''"] trim_def is_space_def)
  show ?thesis
    using history_keeps_most_recent [OF 1(1,2) 2 1(3) 3 4] 5 by simp
qed

section \<open>The gates of the send path\<close>

lemma dropWhile_hd: "s \<noteq> [] \<Longrightarrow> \<not> P (hd s) \<Longrightarrow> dropWhile P s = s"
  by (cases s) simp_all

lemma trim_unchanged:
  assumes "s \<noteq> []" and "\<not> is_space (hd s)" and "\<not> is_space (last s)"
  shows "trim s = s"
proof -
  have "dropWhile is_space s = s" using assms(1,2) by (rule dropWhile_hd)
  moreover have "dropWhile is_space (rev s) = rev s"
    using assms(1,3) by (intro dropWhile_hd) (simp_all add: hd_rev)
  ultimately show ?thesis by (simp add: trim_def)
qed

lemma to_json_turn_text: "to_json (turn r (JStr m)) = turn r (JStr m)"
  by (simp add: turn_def)

lemma request_contents_last:
  assumes "callGeminiAPI_request pf m st = Inr req"
  shows "\<exists>cs. request_contents req = Inr (cs @ [turn (js ''user'') (JStr m)])"
proof -
  from assms obtain contents where c: "build_contents pf m st = Inr contents"
    and req: "req = \<lparr>url = GEMINI_API_URL @ js ''?key='' @ getApiKey st,
        body = JSON_stringify
                 (JObj [(js ''contents'', JArr contents),
                        (js ''generationConfig'', MODEL_CONFIG),
                        (js ''safetySettings'', safetySettings)])\<rparr>"
    by (auto simp: callGeminiAPI_request_def and_then_def split: sum.splits)
  from c obtain cs where cs: "contents = cs @ [turn (js ''user'') (JStr m)]"
    by (auto simp: build_contents_def and_then_def split: sum.splits)
  have "request_contents req =
      Inr (map (\<lambda>x. if x = JUndefined then JNull else to_json x) contents)"
    by (simp add: req request_contents_def JSON_stringify_def JSON_parse_def and_then_def
        get_def spread_def js_def)
  then show ?thesis
    by (simp add: cs to_json_turn_text turn_def)
qed

text \<open>
  C8 (amended). When the trimmed text of the message box is empty, or a request is in
  flight, or no credential is stored, sending hands nothing to the network and leaves
  the history and the persona as they are. A blank text or a request in flight ends the
  call with the state untouched; otherwise, the credential being absent, the settings
  panel for entering it is shown.
\<close>

theorem sendMessage_gated:
  assumes "trim (message_input st) = [] \<or> isLoading st \<or> \<not> hasApiKey st"
  shows "fetched (sendMessage pf r st) = fetched st
       \<and> conversationHistory (sendMessage pf r st) = conversationHistory st
       \<and> currentPersonality (sendMessage pf r st) = currentPersonality st
       \<and> snd (sendMessage_start pf st) = Finished
       \<and> (if trim (message_input st) = [] \<or> isLoading st then sendMessage pf r st = st
          else settings_visible (sendMessage pf r st))"
  using assms
  by (auto simp: sendMessage_def sendMessage_start_def showApiKeyDialog_def showSettings_def Let_def)

theorem sendMessage_gated_witness:
  "\<not> hasApiKey (fresh None None\<lparr>message_input := js ''Hello''\<rparr>)
   \<and> fetched (sendMessage test_platform Rejected (fresh None None\<lparr>message_input := js ''Hello''\<rparr>)) = []
   \<and> conversationHistory (sendMessage test_platform Rejected (fresh None None\<lparr>message_input := js ''Hello''\<rparr>)) = JArr []
   \<and> settings_visible (sendMessage test_platform Rejected (fresh None None\<lparr>message_input := js ''Hello''\<rparr>))"
proof -
  let ?st = "fresh None None\<lparr>message_input := js ''Hello''\<rparr>"
  have 1: "\<not> hasApiKey ?st" by (simp add: fresh_def hasApiKey_def getApiKey_def)
  have 2: "trim (message_input ?st) \<noteq> []" by (simp add: trim_def js_def is_space_def)
  have 3: "\<not> isLoading ?st" by (simp add: fresh_def)
  from 1 have "trim (message_input ?st) = [] \<or> isLoading ?st \<or> \<not> hasApiKey ?st" by simp
  from sendMessage_gated [OF this, of test_platform Rejected] 1 2 3
  show ?thesis by (simp add: fresh_def)
qed

text \<open>
  The claim as first stated asks for the panel whenever the credential is absent. On a
  page without a credential and with an empty message box, sending does nothing at all:
  the check of line 47 returns before the credential is looked at.
\<close>

theorem blank_message_without_key_counterexample:
  "\<not> hasApiKey (fresh None None)
   \<and> \<not> settings_visible (sendMessage test_platform Rejected (fresh None None))"
  by (simp add: fresh_def hasApiKey_def getApiKey_def sendMessage_def sendMessage_start_def trim_def)

text \<open>
  C10. \<open>MAX_MESSAGE_LENGTH\<close> is not consulted. With no request in flight and a
  credential stored, every message whose trimmed text is not empty, whatever its length,
  is sent: one request is handed to the network, and the last entry of its message list
  is a user turn with the whole trimmed text.
\<close>

theorem message_length_not_enforced:
  fixes pf :: platform
  assumes "trim (message_input st) \<noteq> []" and "\<not> isLoading st" and "hasApiKey st"
    and "currentPersonality st = JStr p" and "conversationHistory st = JArr h"
  defines "st' \<equiv> fst (sendMessage_start pf st)"
  shows "snd (sendMessage_start pf st) = Awaiting (trim (message_input st))
       \<and> butlast (fetched st') = fetched st
       \<and> and_then (request_contents (last (fetched st'))) (\<lambda>cs. Inr (last cs)) =
           Inr (turn (js ''user'') (JStr (trim (message_input st))))"
proof -
  let ?m = "trim (message_input st)"
  let ?st1 = "fst (addMessage pf (js ''user'') (Content (JStr ?m)) (disableInput st))"
  let ?req = "projr (callGeminiAPI_request pf ?m ?st1)"
  have start: "sendMessage_start pf st = (?st1\<lparr>fetched := fetched ?st1 @ [?req]\<rparr>, Awaiting ?m)"
    using assms(1-5) by (rule sendMessage_start_ok)
  have "currentPersonality ?st1 = JStr p" "conversationHistory ?st1 = JArr h"
    using assms(4,5) by (simp_all add: disableInput_def)
  then obtain req where "callGeminiAPI_request pf ?m ?st1 = Inr req"
    using callGeminiAPI_request_ok by blast
  then have "callGeminiAPI_request pf ?m ?st1 = Inr ?req" by simp
  then obtain cs where "request_contents ?req = Inr (cs @ [turn (js ''user'') (JStr ?m)])"
    using request_contents_last by blast
  moreover have "fetched ?st1 = fetched st" by (simp add: disableInput_def)
  ultimately show ?thesis
    by (simp add: st'_def start and_then_def)
qed

theorem message_length_not_enforced_witness:
  "MAX_MESSAGE_LENGTH < length (trim (replicate 5000 (0x61 :: 16 word)))
   \<and> snd (sendMessage_start test_platform
            (fresh (Some (js ''key'')) None\<lparr>message_input := replicate 5000 0x61\<rparr>)) =
       Awaiting (replicate 5000 0x61)
   \<and> and_then (request_contents (last (fetched (fst (sendMessage_start test_platform
            (fresh (Some (js ''key'')) None\<lparr>message_input := replicate 5000 0x61\<rparr>))))))
         (\<lambda>cs. Inr (last cs)) =
       Inr (turn (js ''user'') (JStr (replicate 5000 0x61)))"
proof -
  let ?st = "fresh (Some (js ''key'')) None\<lparr>message_input := replicate 5000 0x61\<rparr>"
  have t: "trim (replicate 5000 (0x61 :: 16 word)) = replicate 5000 0x61"
    by (rule trim_unchanged) (simp_all add: is_space_def)
  have 1: "trim (message_input ?st) \<noteq> []" by (simp add: t)
  have 2: "\<not> isLoading ?st" "currentPersonality ?st = JStr (js ''default'')"
    "conversationHistory ?st = JArr []"
    by (simp_all add: fresh_def)
  have 3: "hasApiKey ?st" by (simp add: fresh_def hasApiKey_def getApiKey_def js_def)
  show ?thesis
    using message_length_not_enforced [OF 1 2(1) 3 2(2,3), of test_platform] t
    by (simp add: MAX_MESSAGE_LENGTH_def)
qed

section \<open>Failures of the remote call\<close>

lemma sendMessage_start_history:
  "conversationHistory (fst (sendMessage_start pf st)) = conversationHistory st"
  by (simp add: sendMessage_start_def Let_def showApiKeyDialog_def showSettings_def
      sendMessage_end_def sendMessage_catch_def enableInput_def addMessage_def disableInput_def
      split: sum.splits)

lemma sendMessage_resume_failure:
  assumes "callGeminiAPI_result pf r = Inl e"
  shows "conversationHistory (sendMessage_resume pf m r st) = conversationHistory st"
  using assms
  by (simp add: sendMessage_resume_def sendMessage_end_def sendMessage_catch_def
      enableInput_def addMessage_def)

lemma sendMessage_failure:
  assumes "callGeminiAPI_result pf r = Inl e"
  shows "conversationHistory (sendMessage pf r st) = conversationHistory st"
proof (cases "sendMessage_start pf st")
  case (Pair st' p)
  then have "conversationHistory st' = conversationHistory st"
    using sendMessage_start_history [of pf st] by simp
  then show ?thesis
    using Pair assms by (cases p) (simp_all add: sendMessage_def sendMessage_resume_failure)
qed

lemma get_nullish: "nullish v \<Longrightarrow> get v n = Inl TypeError"
  by (auto simp: nullish_def get_def)

lemma get_not_nullish: "\<not> nullish v \<Longrightarrow> get v n = Inr (or_undefined (get v n))"
  by (cases v) (simp_all add: nullish_def get_def or_undefined_def)

lemma not_ok_fails: "\<exists>e. callGeminiAPI_result pf (Response False payload) = Inl e"
  by (simp add: callGeminiAPI_result_def and_then_def split: sum.splits)

lemma not_ok_message:
  assumes "\<not> nullish d"
  shows "callGeminiAPI_result pf (Response False (Json d)) =
     Inl (if truthy (payload_error_message d) then new_Error pf (payload_error_message d)
          else Error api_error_text)"
proof -
  obtain e where e: "get d (js ''error'') = Inr e"
    using get_not_nullish [OF assms] by blast
  show ?thesis
  proof (cases "nullish e")
    case True
    then have "payload_error_message d = JUndefined"
      by (simp add: payload_error_message_def e and_then_def get_nullish or_undefined_def)
    moreover have "callGeminiAPI_result pf (Response False (Json d)) =
        Inl (new_Error pf (JStr api_error_text))"
      using True by (simp add: callGeminiAPI_result_def JSON_parse_def and_then_def e
          nullish_def js_or_def)
    ultimately show ?thesis by (simp add: new_Error_def)
  next
    case False
    then obtain m where m: "get e (js ''message'') = Inr m"
      using get_not_nullish by blast
    then have "payload_error_message d = m"
      by (simp add: payload_error_message_def e and_then_def or_undefined_def)
    moreover have "callGeminiAPI_result pf (Response False (Json d)) =
        Inl (new_Error pf (js_or m (JStr api_error_text)))"
      using False by (simp add: callGeminiAPI_result_def JSON_parse_def and_then_def e m
          nullish_def)
    ultimately show ?thesis by (simp add: js_or_def new_Error_def)
  qed
qed

text \<open>
  C4 (amended). Every response with a non-success status makes the call fail, and the
  failure leaves the conversation history as it was: the two turns of an exchange are
  recorded only after a reply. When the body is JSON and not \<open>null\<close>, the error is built
  from the payload's \<open>error.message\<close> if that value is truthy (a non-empty string is
  the message itself), and from the fallback text if the error or its message is missing
  or falsy.
\<close>

theorem api_failure:
  "(\<exists>e. callGeminiAPI_result pf (Response False payload) = Inl e)
   \<and> conversationHistory (sendMessage pf (Response False payload) st) = conversationHistory st
   \<and> (\<forall>d. payload = Json d \<and> \<not> nullish d \<longrightarrow>
        callGeminiAPI_result pf (Response False payload) =
          Inl (if truthy (payload_error_message d)
               then new_Error pf (payload_error_message d)
               else Error api_error_text))
   \<and> (\<forall>s. new_Error pf (JStr s) = Error s)"
proof -
  obtain e where e: "callGeminiAPI_result pf (Response False payload) = Inl e"
    using not_ok_fails by blast
  then have "conversationHistory (sendMessage pf (Response False payload) st) =
      conversationHistory st"
    by (rule sendMessage_failure)
  with e show ?thesis
    by (auto simp: not_ok_message new_Error_def)
qed

theorem api_failure_witness:
  "\<not> nullish quota_payload
   \<and> callGeminiAPI_result test_platform (Response False (Json quota_payload)) =
       Inl (Error (js ''quota exceeded''))
   \<and> conversationHistory
        (sendMessage test_platform (Response False (Json quota_payload))
           (fresh (Some (js ''key'')) None\<lparr>message_input := js ''Hello''\<rparr>)) = JArr []"
proof -
  have 1: "\<not> nullish quota_payload" by (simp add: nullish_def quota_payload_def)
  have 2: "payload_error_message quota_payload = JStr (js ''quota exceeded'')"
    by (simp add: payload_error_message_def quota_payload_def get_def and_then_def
        or_undefined_def)
  have 3: "truthy (JStr (js ''quota exceeded''))" by (simp add: js_def)
  show ?thesis
    using api_failure [of test_platform "Json quota_payload"
        "fresh (Some (js ''key'')) None\<lparr>message_input := js ''Hello''\<rparr>"] 1 2 3
    by (simp add: fresh_def)
qed

text \<open>
  The claim as first stated takes the message from the field whenever the field is there.
  A payload whose \<open>error.message\<close> is the empty string has the field, and the error
  carries the fallback text instead: line 143 chooses with \<^verbatim>\<open>||\<close>.
\<close>

theorem empty_error_message_counterexample:
  "payload_error_message (JObj [(js ''error'', JObj [(js ''message'', JStr [])])]) = JStr []
   \<and> callGeminiAPI_result test_platform
        (Response False (Json (JObj [(js ''error'', JObj [(js ''message'', JStr [])])]))) =
       Inl (Error api_error_text)
   \<and> api_error_text \<noteq> []"
  by (simp add: payload_error_message_def callGeminiAPI_result_def JSON_parse_def get_def
      and_then_def or_undefined_def js_or_def new_Error_def api_error_text_def)

lemma ok_result:
  "callGeminiAPI_result pf (Response True (Json d)) =
     (if nullish (first_part pf d) then Inl TypeError
      else Inr (or_undefined (get (first_part pf d) (js ''text''))))"
proof -
  let ?chain = "and_then (get d (js ''candidates'')) (\<lambda>candidates.
        and_then (index pf candidates 0) (\<lambda>candidate.
        and_then (get candidate (js ''content'')) (\<lambda>content.
        and_then (get content (js ''parts'')) (\<lambda>parts. index pf parts 0))))"
  have res: "callGeminiAPI_result pf (Response True (Json d)) =
      and_then ?chain (\<lambda>part. get part (js ''text''))"
    by (simp add: callGeminiAPI_result_def JSON_parse_def and_then_def split: sum.splits)
  show ?thesis
  proof (cases ?chain)
    case (Inl e)
    have "e = TypeError"
      using Inl by (auto simp: and_then_def get_def index_def split: sum.splits jsval.splits)
    moreover have "callGeminiAPI_result pf (Response True (Json d)) = Inl e"
      unfolding res Inl by (simp add: and_then_def)
    moreover have "first_part pf d = JUndefined"
      unfolding first_part_def Inl by (simp add: or_undefined_def)
    ultimately show ?thesis by (simp add: nullish_def)
  next
    case (Inr part)
    then have fp: "first_part pf d = part" by (simp add: first_part_def or_undefined_def)
    have r2: "callGeminiAPI_result pf (Response True (Json d)) = get part (js ''text'')"
      unfolding res Inr by (simp add: and_then_def)
    show ?thesis
    proof (cases "nullish part")
      case True
      then show ?thesis by (simp add: r2 fp get_nullish)
    next
      case False
      then show ?thesis using get_not_nullish [OF False, of "js ''text''"]
        by (simp add: r2 fp)
    qed
  qed
qed

text \<open>
  C6 (amended). A response with a success status makes the call fail, the history staying
  as it was, when its body is not JSON or when \<open>candidates[0].content.parts[0]\<close> is
  missing from it. When that first part is there, the call returns its \<open>text\<close>, which
  is \<open>undefined\<close> if the part has none.
\<close>

theorem malformed_success_response:
  "(\<forall>d. payload = Json d \<and> nullish (first_part pf d) \<longrightarrow>
       callGeminiAPI_result pf (Response True payload) = Inl TypeError)
   \<and> (payload = Blank \<or> payload = Garbled \<longrightarrow>
       callGeminiAPI_result pf (Response True payload) = Inl SyntaxError)
   \<and> (\<forall>d. payload = Json d \<and> \<not> nullish (first_part pf d) \<longrightarrow>
       callGeminiAPI_result pf (Response True payload) =
         Inr (or_undefined (get (first_part pf d) (js ''text''))))
   \<and> (\<forall>e. callGeminiAPI_result pf (Response True payload) = Inl e \<longrightarrow>
       conversationHistory (sendMessage pf (Response True payload) st) = conversationHistory st)"
proof -
  have "payload = Blank \<or> payload = Garbled \<longrightarrow>
       callGeminiAPI_result pf (Response True payload) = Inl SyntaxError"
    by (auto simp: callGeminiAPI_result_def JSON_parse_def and_then_def)
  then show ?thesis
    by (auto simp: ok_result sendMessage_failure)
qed

theorem malformed_success_response_witness:
  "nullish (first_part test_platform (JObj [(js ''candidates'', JArr [])]))
   \<and> callGeminiAPI_result test_platform (Response True (Json (JObj [(js ''candidates'', JArr [])]))) =
       Inl TypeError
   \<and> callGeminiAPI_result test_platform (Response True Garbled) = Inl SyntaxError
   \<and> conversationHistory
        (sendMessage test_platform (Response True (Json (JObj [(js ''candidates'', JArr [])])))
           (fresh (Some (js ''key'')) None\<lparr>message_input := js ''Hello''\<rparr>)) = JArr []
   \<and> \<not> nullish (first_part test_platform
          (JObj [(js ''candidates'', JArr [JObj [(js ''content'',
             JObj [(js ''parts'', JArr [JObj [(js ''text'', JStr (js ''Hi there''))]])])]])]))
   \<and> callGeminiAPI_result test_platform (reply_with (JStr (js ''Hi there''))) =
       Inr (JStr (js ''Hi there''))"
proof -
  let ?d = "JObj [(js ''candidates'', JArr [])]"
  let ?st = "fresh (Some (js ''key'')) None\<lparr>message_input := js ''Hello''\<rparr>"
  let ?g = "JObj [(js ''candidates'', JArr [JObj [(js ''content'',
             JObj [(js ''parts'', JArr [JObj [(js ''text'', JStr (js ''Hi there''))]])])]])]"
  have 1: "nullish (first_part test_platform ?d)"
    by (simp add: first_part_def get_def index_def and_then_def or_undefined_def nullish_def)
  have 2: "first_part test_platform ?g = JObj [(js ''text'', JStr (js ''Hi there''))]"
    by (simp add: first_part_def get_def index_def and_then_def or_undefined_def js_def)
  have 3: "reply_with (JStr (js ''Hi there'')) = Response True (Json ?g)"
    by (simp add: reply_with_def)
  note A = malformed_success_response [of "Json ?d" test_platform ?st]
  note B = malformed_success_response [of Garbled test_platform ?st]
  note C = malformed_success_response [of "Json ?g" test_platform ?st]
  from A 1 have a: "callGeminiAPI_result test_platform (Response True (Json ?d)) = Inl TypeError"
    by blast
  with A have h: "conversationHistory (sendMessage test_platform (Response True (Json ?d)) ?st) =
      conversationHistory ?st"
    by blast
  from B have b: "callGeminiAPI_result test_platform (Response True Garbled) = Inl SyntaxError"
    by blast
  have 4: "\<not> nullish (first_part test_platform ?g)" by (simp add: 2 nullish_def)
  with C have "callGeminiAPI_result test_platform (Response True (Json ?g)) =
      Inr (or_undefined (get (first_part test_platform ?g) (js ''text'')))"
    by blast
  then have c: "callGeminiAPI_result test_platform (reply_with (JStr (js ''Hi there''))) =
      Inr (JStr (js ''Hi there''))"
    by (simp add: 2 3 get_def or_undefined_def)
  have "conversationHistory ?st = JArr []" by (simp add: fresh_def)
  with 1 a h b 4 c show ?thesis by simp
qed

text \<open>
  The claim as first stated has the call fail whenever the text is absent. For the body
  \<^verbatim>\<open>{candidates: [{content: {parts: [{}]}}]}\<close> line 147 reads a missing property of an
  object, which is \<open>undefined\<close> and no error: the call returns, and the exchange is
  recorded with that reply.
\<close>

theorem missing_text_counterexample:
  "first_part test_platform
     (JObj [(js ''candidates'', JArr [JObj [(js ''content'',
        JObj [(js ''parts'', JArr [JObj []])])]])]) = JObj []
   \<and> get (JObj []) (js ''text'') = Inr JUndefined
   \<and> callGeminiAPI_result test_platform
        (Response True (Json (JObj [(js ''candidates'', JArr [JObj [(js ''content'',
           JObj [(js ''parts'', JArr [JObj []])])]])]))) = Inr JUndefined
   \<and> conversationHistory
        (sendMessage test_platform
           (Response True (Json (JObj [(js ''candidates'', JArr [JObj [(js ''content'',
              JObj [(js ''parts'', JArr [JObj []])])]])])))
           (fresh (Some (js ''key'')) None\<lparr>message_input := js ''Hello''\<rparr>)) =
       JArr [turn (js ''user'') (JStr (js ''Hello'')), turn (js ''model'') JUndefined]"
proof -
  let ?r = "Response True (Json (JObj [(js ''candidates'', JArr [JObj [(js ''content'',
              JObj [(js ''parts'', JArr [JObj []])])]])]))"
  let ?st = "fresh (Some (js ''key'')) None"
  have r: "callGeminiAPI_result test_platform ?r = Inr JUndefined"
    by (simp add: callGeminiAPI_result_def JSON_parse_def get_def index_def and_then_def js_def)
  have t: "trim (js ''Hello'') = js ''Hello''"
    by (simp add: trim_def js_def is_space_def)
  then have "trim (js ''Hello'') \<noteq> []" by (simp add: js_def)
  moreover have "\<not> isLoading ?st" "currentPersonality ?st = JStr (js ''default'')"
    "conversationHistory ?st = JArr []"
    by (simp_all add: fresh_def)
  moreover have "hasApiKey ?st"
    by (simp add: fresh_def hasApiKey_def getApiKey_def js_def)
  ultimately have "conversationHistory (sendMessage test_platform ?r (?st\<lparr>message_input := js ''Hello''\<rparr>)) =
      JArr (slice_last MAX_HISTORY_LENGTH
             ([] @ [turn (js ''user'') (JStr (trim (js ''Hello''))), turn (js ''model'') JUndefined]))"
    using r by (intro sendMessage_success(1)) simp_all
  then have h: "conversationHistory (sendMessage test_platform ?r (?st\<lparr>message_input := js ''Hello''\<rparr>)) =
      JArr [turn (js ''user'') (JStr (js ''Hello'')), turn (js ''model'') JUndefined]"
    by (simp add: t slice_last_def MAX_HISTORY_LENGTH_def)
  have fp: "first_part test_platform
     (JObj [(js ''candidates'', JArr [JObj [(js ''content'',
        JObj [(js ''parts'', JArr [JObj []])])]])]) = JObj []"
    by (simp add: first_part_def get_def index_def and_then_def or_undefined_def js_def)
  have g: "get (JObj []) (js ''text'') = Inr JUndefined"
    by (simp add: get_def)
  from fp g r h show ?thesis by (intro conjI)
qed

section \<open>Persistence\<close>

lemma restore_pair_result:
  "fst (restore_pair pf h i st) = st
   \<or> (\<exists>t. fst (restore_pair pf h i st) = fst (addMessage pf (js ''user'') (Content t) st))
   \<or> (\<exists>t u. fst (restore_pair pf h i st) =
         fst (addMessage pf (js ''bot'') (Content u)
               (fst (addMessage pf (js ''user'') (Content t) st))))"
proof (cases "\<exists>a b t. index pf h i = Inr a \<and> truthy a \<and> index pf h (i + 1) = Inr b
      \<and> truthy b \<and> message_text pf a = Inr t")
  case False
  then have "fst (restore_pair pf h i st) = st"
    by (auto simp: restore_pair_def split: sum.splits)
  then show ?thesis by simp
next
  case True
  then obtain a b t where ab: "index pf h i = Inr a" "truthy a" "index pf h (i + 1) = Inr b"
    "truthy b" "message_text pf a = Inr t"
    by blast
  obtain st1 where a1: "addMessage pf (js ''user'') (Content t) st =
      (st1, text_conversion pf (Content t))"
    and f1: "fst (addMessage pf (js ''user'') (Content t) st) = st1"
    by (rule addMessage_split)
  have pair: "restore_pair pf h i st =
      (case text_conversion pf (Content t) of
         Some e \<Rightarrow> (st1, Some e)
       | None \<Rightarrow>
           (case message_text pf b of
              Inl e \<Rightarrow> (st1, Some e)
            | Inr u \<Rightarrow> addMessage pf (js ''bot'') (Content u) st1))"
    using ab a1 by (simp add: restore_pair_def split: option.splits)
  show ?thesis
  proof (cases "text_conversion pf (Content t)")
    case (Some e)
    with pair f1 show ?thesis by auto
  next
    case None
    show ?thesis
    proof (cases "message_text pf b")
      case (Inl e)
      with pair None f1 show ?thesis by auto
    next
      case (Inr u)
      with pair None have "fst (restore_pair pf h i st) =
          fst (addMessage pf (js ''bot'') (Content u) st1)"
        by simp
      with f1 show ?thesis by blast
    qed
  qed
qed

lemma restore_pair_keeps:
  "conversationHistory (fst (restore_pair pf h i st)) = conversationHistory st"
  "currentPersonality (fst (restore_pair pf h i st)) = currentPersonality st"
  "gemini_chat_data (fst (restore_pair pf h i st)) = gemini_chat_data st"
  using restore_pair_result [of pf h i st] by auto

lemma restore_loop_keeps:
  "conversationHistory (fst (restore_loop pf h i st)) = conversationHistory st
   \<and> currentPersonality (fst (restore_loop pf h i st)) = currentPersonality st
   \<and> gemini_chat_data (fst (restore_loop pf h i st)) = gemini_chat_data st"
proof (induction pf h i st rule: restore_loop.induct)
  case (1 pf h i st)
  show ?case
  proof (cases "and_then (get_length h) (num_less pf (of_nat i))")
    case (Inl e)
    then show ?thesis by (simp add: restore_loop.simps [of pf h i st])
  next
    case (Inr again)
    show ?thesis
    proof (cases again)
      case False
      with Inr show ?thesis by (simp add: restore_loop.simps [of pf h i st])
    next
      case True
      obtain st' r where p: "restore_pair pf h i st = (st', r)" by (cases "restore_pair pf h i st")
      then have keep: "conversationHistory st' = conversationHistory st"
        "currentPersonality st' = currentPersonality st"
        "gemini_chat_data st' = gemini_chat_data st"
        using restore_pair_keeps [of pf h i st] by simp_all
      show ?thesis
      proof (cases r)
        case None
        with "1.IH" [OF Inr True p [symmetric]] keep Inr True p show ?thesis
          by (simp add: restore_loop.simps [of pf h i st])
      next
        case (Some e)
        with keep Inr True p show ?thesis
          by (simp add: restore_loop.simps [of pf h i st])
      qed
    qed
  qed
qed

lemma restore_messages_keeps:
  "conversationHistory (fst (restore_messages pf st)) = conversationHistory st
   \<and> currentPersonality (fst (restore_messages pf st)) = currentPersonality st
   \<and> gemini_chat_data (fst (restore_messages pf st)) = gemini_chat_data st"
proof (cases "and_then (get_length (conversationHistory st)) (num_less pf 0)")
  case (Inl e)
  then show ?thesis by (simp add: restore_messages_def)
next
  case (Inr nonempty)
  then show ?thesis
    using restore_loop_keeps [of pf "conversationHistory st" 0 "hideWelcomeMessage st"]
    by (cases nonempty) (simp_all add: restore_messages_def hideWelcomeMessage_def)
qed

lemma changePersonality_persona:
  "currentPersonality (fst (changePersonality pf v st)) =
     (if snd (changePersonality pf v st) = None then v else currentPersonality st)"
  by (simp add: changePersonality_def saveData_def Let_def split: sum.splits)

lemma changePersonality_history:
  "conversationHistory (fst (changePersonality pf v st)) = conversationHistory st"
  by (simp add: changePersonality_def saveData_def Let_def split: sum.splits)

lemma restore_state:
  assumes "\<not> nullish data"
  shows "conversationHistory (fst (restore pf data st)) =
           js_or (or_undefined (get data (js ''conversationHistory''))) (JArr [])"
    and "currentPersonality (fst (restore pf data st)) =
           js_or (or_undefined (get data (js ''currentPersonality''))) (JStr (js ''default''))"
proof -
  obtain h where h: "get data (js ''conversationHistory'') = Inr h"
    using get_not_nullish [OF assms] by blast
  obtain p where p: "get data (js ''currentPersonality'') = Inr p"
    using get_not_nullish [OF assms] by blast
  let ?h = "js_or h (JArr [])" and ?p = "js_or p (JStr (js ''default''))"
  let ?st2 = "st\<lparr>conversationHistory := ?h, currentPersonality := ?p\<rparr>"
  obtain st3 r where c: "changePersonality pf ?p ?st2 = (st3, r)"
    by (cases "changePersonality pf ?p ?st2")
  have st3: "conversationHistory st3 = ?h" "currentPersonality st3 = ?p"
    using changePersonality_history [of pf ?p ?st2] changePersonality_persona [of pf ?p ?st2] c
    by simp_all
  have "restore pf data st = (case r of Some e \<Rightarrow> (st3, Some e) | None \<Rightarrow> restore_messages pf st3)"
    by (simp add: restore_def h p c Let_def split: option.splits)
  then have "conversationHistory (fst (restore pf data st)) = ?h
      \<and> currentPersonality (fst (restore pf data st)) = ?p"
    using st3 restore_messages_keeps [of pf st3] by (cases r) simp_all
  then show "conversationHistory (fst (restore pf data st)) =
           js_or (or_undefined (get data (js ''conversationHistory''))) (JArr [])"
    and "currentPersonality (fst (restore pf data st)) =
           js_or (or_undefined (get data (js ''currentPersonality''))) (JStr (js ''default''))"
    by (simp_all add: h p or_undefined_def)
qed

lemma restore_nullish: "nullish data \<Longrightarrow> restore pf data st = (st, Some TypeError)"
  by (simp add: restore_def get_nullish)

lemma loadSavedData_json:
  assumes "gemini_chat_data st = Some (Json data)" and "\<not> nullish data"
  shows "conversationHistory (loadSavedData pf st) =
           js_or (or_undefined (get data (js ''conversationHistory''))) (JArr [])"
    and "currentPersonality (loadSavedData pf st) =
           js_or (or_undefined (get data (js ''currentPersonality''))) (JStr (js ''default''))"
  using assms restore_state [OF assms(2), of pf st]
  by (simp_all add: loadSavedData_def JSON_parse_def)

lemma loadSavedData_nothing:
  assumes "gemini_chat_data st = None \<or> gemini_chat_data st = Some Blank
    \<or> gemini_chat_data st = Some Garbled \<or> gemini_chat_data st = Some (Json JNull)"
  shows "loadSavedData pf st = st"
  using assms by (auto simp: loadSavedData_def JSON_parse_def restore_nullish nullish_def)

lemma to_json_json_value: "json_value v \<Longrightarrow> to_json v = v"
proof (induction v rule: to_json.induct)
  case (1 xs)
  then have "map (\<lambda>x. if x = JUndefined then JNull else to_json x) xs = map (\<lambda>x. x) xs"
    by (intro map_cong) (auto simp: list_all_iff)
  then show ?case by simp
next
  case (2 kvs)
  have all: "\<forall>kv \<in> set kvs. json_value (snd kv)"
    using "2.prems" by (simp add: list_all_iff)
  then have f: "filter (\<lambda>(k, v). v \<noteq> JUndefined) kvs = kvs"
    by (intro filter_True) auto
  have "map (\<lambda>(k, v). (k, to_json v)) kvs = map (\<lambda>kv. kv) kvs"
  proof (intro map_cong refl)
    fix kv assume kv: "kv \<in> set kvs"
    obtain k v where [simp]: "kv = (k, v)" by (cases kv)
    from kv all have "json_value v" by auto
    moreover from kv f have "(k, v) \<in> set (filter (\<lambda>(k, v). v \<noteq> JUndefined) kvs)" by simp
    ultimately have "to_json v = v" using "2.IH" by blast
    then show "(case kv of (k, v) \<Rightarrow> (k, to_json v)) = kv" by simp
  qed
  with f show ?case by simp
qed simp_all

lemma known_personas_nonempty: "p \<in> set known_personas \<Longrightarrow> p \<noteq> []"
  by (auto simp: known_personas_def PERSONALITIES_def js_def)

text \<open>
  C7 (amended). Take a state whose persona is of the known set and whose history is an
  array of values that JSON can carry: no \<open>undefined\<close> anywhere in it, as when every
  turn has a string for its text. Saving it and then loading, on any page that finds what
  was saved in its store, gives back the same history and the same persona. The history
  need not even be non-empty.
\<close>

theorem save_load_round_trip:
  assumes "p \<in> set known_personas" and "currentPersonality st = JStr p"
    and "conversationHistory st = JArr h" and "list_all json_value h"
    and "gemini_chat_data st2 = gemini_chat_data (saveData st)"
  shows "conversationHistory (loadSavedData pf st2) = conversationHistory st
       \<and> currentPersonality (loadSavedData pf st2) = currentPersonality st"
proof -
  let ?data = "JObj [(js ''conversationHistory'', JArr h), (js ''currentPersonality'', JStr p)]"
  have "json_value ?data" using assms(4) by simp
  then have "to_json ?data = ?data" by (rule to_json_json_value)
  then have saved: "gemini_chat_data st2 = Some (Json ?data)"
    using assms(2,3,5) by (simp add: saveData_def JSON_stringify_def)
  have nn: "\<not> nullish ?data" by (simp add: nullish_def)
  have "get ?data (js ''conversationHistory'') = Inr (JArr h)"
    and "get ?data (js ''currentPersonality'') = Inr (JStr p)"
    by (simp_all add: get_def js_def)
  with loadSavedData_json [OF saved nn, of pf] known_personas_nonempty [OF assms(1)] assms(2,3)
  show ?thesis by (simp add: or_undefined_def js_or_def)
qed

theorem save_load_round_trip_witness:
  "js ''friend'' \<in> set known_personas
   \<and> conversationHistory
        (loadSavedData test_platform (fresh None (gemini_chat_data (saveData chatted)))) =
       JArr [turn (js ''user'') (JStr (js ''Hello'')), turn (js ''model'') (JStr (js ''Hi there''))]
   \<and> currentPersonality
        (loadSavedData test_platform (fresh None (gemini_chat_data (saveData chatted)))) =
       JStr (js ''friend'')"
proof -
  let ?h = "[turn (js ''user'') (JStr (js ''Hello'')), turn (js ''model'') (JStr (js ''Hi there''))]"
  have 1: "js ''friend'' \<in> set known_personas"
    by (simp add: known_personas_def PERSONALITIES_def js_def)
  have 2: "currentPersonality chatted = JStr (js ''friend'')"
    "conversationHistory chatted = JArr ?h"
    by (simp_all add: chatted_def)
  have 3: "list_all json_value ?h" by (simp add: turn_def)
  have 4: "gemini_chat_data (fresh None (gemini_chat_data (saveData chatted))) =
      gemini_chat_data (saveData chatted)"
    by (simp add: fresh_def)
  from save_load_round_trip [OF 1 2 3 4, of test_platform] 1 2 show ?thesis by simp
qed

text \<open>
  The claim as first stated makes no condition on what the history holds. An exchange
  whose reply part has no text is recorded with the text \<open>undefined\<close>; the persona is
  \<open>default\<close> and the history is not empty. \<^verbatim>\<open>JSON.stringify\<close> leaves a property
  with that value out, so the history that is loaded has a part without a \<open>text\<close>
  property, and is not the history that was saved.
\<close>

theorem reply_without_text_counterexample:
  "js ''default'' \<in> set known_personas
   \<and> currentPersonality textless = JStr (js ''default'')
   \<and> conversationHistory textless =
       JArr [JObj [(js ''role'', JStr (js ''user'')),
                   (js ''parts'', JArr [JObj [(js ''text'', JStr (js ''Hello''))]])],
             JObj [(js ''role'', JStr (js ''model'')),
                   (js ''parts'', JArr [JObj [(js ''text'', JUndefined)]])]]
   \<and> conversationHistory
        (loadSavedData test_platform
           (fresh (Some (js ''key'')) (gemini_chat_data (saveData textless)))) =
       JArr [JObj [(js ''role'', JStr (js ''user'')),
                   (js ''parts'', JArr [JObj [(js ''text'', JStr (js ''Hello''))]])],
             JObj [(js ''role'', JStr (js ''model'')),
                   (js ''parts'', JArr [JObj []])]]
   \<and> conversationHistory
        (loadSavedData test_platform
           (fresh (Some (js ''key'')) (gemini_chat_data (saveData textless)))) \<noteq>
       conversationHistory textless"
proof -
  let ?r = "Response True (Json (JObj [(js ''candidates'', JArr [JObj [(js ''content'',
              JObj [(js ''parts'', JArr [JObj []])])]])]))"
  let ?st = "fresh (Some (js ''key'')) None"
  let ?kept = "JArr [JObj [(js ''role'', JStr (js ''user'')),
                   (js ''parts'', JArr [JObj [(js ''text'', JStr (js ''Hello''))]])],
             JObj [(js ''role'', JStr (js ''model'')),
                   (js ''parts'', JArr [JObj []])]]"
  let ?data = "JObj [(js ''conversationHistory'', ?kept),
                     (js ''currentPersonality'', JStr (js ''default''))]"
  have k: "js ''default'' \<in> set known_personas"
    by (simp add: known_personas_def PERSONALITIES_def js_def)
  have r: "callGeminiAPI_result test_platform ?r = Inr JUndefined"
    by (simp add: callGeminiAPI_result_def JSON_parse_def get_def index_def and_then_def js_def)
  have t: "trim (js ''Hello'') = js ''Hello''"
    by (simp add: trim_def js_def is_space_def)
  then have 1: "trim (js ''Hello'') \<noteq> []" by (simp add: js_def)
  have 2: "\<not> isLoading ?st" "currentPersonality ?st = JStr (js ''default'')"
    "conversationHistory ?st = JArr []"
    by (simp_all add: fresh_def)
  have 3: "hasApiKey ?st"
    by (simp add: fresh_def hasApiKey_def getApiKey_def js_def)
  have 4: "text_conversion test_platform (Content JUndefined) = None" by simp
  note sent = sendMessage_success [OF 1 2(1) 3 2(2,3) r 4]
  have h: "conversationHistory textless =
       JArr [JObj [(js ''role'', JStr (js ''user'')),
                   (js ''parts'', JArr [JObj [(js ''text'', JStr (js ''Hello''))]])],
             JObj [(js ''role'', JStr (js ''model'')),
                   (js ''parts'', JArr [JObj [(js ''text'', JUndefined)]])]]"
    using sent(1) by (simp add: textless_def t slice_last_def MAX_HISTORY_LENGTH_def turn_def)
  have c: "currentPersonality textless = JStr (js ''default'')"
    using sent(4) 2(2) by (simp add: textless_def)
  have saved: "gemini_chat_data (fresh (Some (js ''key'')) (gemini_chat_data (saveData textless))) =
      Some (Json ?data)"
    by (simp add: fresh_def saveData_def JSON_stringify_def h c)
  have nn: "\<not> nullish ?data" by (simp add: nullish_def)
  have "get ?data (js ''conversationHistory'') = Inr ?kept"
    by (simp add: get_def)
  with loadSavedData_json(1) [OF saved nn, of test_platform]
  have l: "conversationHistory
        (loadSavedData test_platform
           (fresh (Some (js ''key'')) (gemini_chat_data (saveData textless)))) = ?kept"
    by (simp add: or_undefined_def js_or_def)
  from k c h l show ?thesis by simp
qed

text \<open>
  C1 (amended). Setting the persona takes the id as it is given, with no check against
  the known set: after \<open>changePersonality\<close> the active persona is the id itself (so it is
  of the known set exactly when the id is), unless building or looking up the selector
  throws, which leaves the persona as it was; a string id whose selector the page accepts
  never throws. Loading a snapshot sets the persona to the stored value when that value
  is truthy, and to \<open>default\<close> when it is missing or falsy.
\<close>

theorem persona_follows_the_given_id:
  "(snd (changePersonality pf v st) = None \<longrightarrow>
      currentPersonality (fst (changePersonality pf v st)) = v)
   \<and> (snd (changePersonality pf v st) \<noteq> None \<longrightarrow>
      currentPersonality (fst (changePersonality pf v st)) = currentPersonality st)
   \<and> (\<forall>s b. v = JStr s \<and> querySelector pf (personality_selector s) = Inr b \<longrightarrow>
      snd (changePersonality pf v st) = None)
   \<and> (\<forall>data. gemini_chat_data st = Some (Json data) \<and> \<not> nullish data \<longrightarrow>
      currentPersonality (loadSavedData pf st) =
        js_or (or_undefined (get data (js ''currentPersonality''))) (JStr (js ''default'')))"
proof -
  have "\<forall>s b. v = JStr s \<and> querySelector pf (personality_selector s) = Inr b \<longrightarrow>
      snd (changePersonality pf v st) = None"
    by (auto simp: changePersonality_def and_then_def Let_def)
  then show ?thesis
    by (auto simp: changePersonality_persona loadSavedData_json)
qed

theorem persona_follows_the_given_id_witness:
  "js ''poet'' \<in> set known_personas
   \<and> currentPersonality (fst (changePersonality test_platform (JStr (js ''poet'')) (fresh None None))) =
       JStr (js ''poet'')
   \<and> currentPersonality
        (loadSavedData test_platform
           (fresh None (Some (Json (JObj [(js ''currentPersonality'', JStr (js ''teacher''))]))))) =
       JStr (js ''teacher'')
   \<and> currentPersonality (loadSavedData test_platform (fresh None (Some (Json (JObj []))))) =
       JStr (js ''default'')"
proof -
  let ?d = "JObj [(js ''currentPersonality'', JStr (js ''teacher''))]"
  have 0: "js ''poet'' \<in> set known_personas"
    by (simp add: known_personas_def PERSONALITIES_def js_def)
  note A = persona_follows_the_given_id [of test_platform "JStr (js ''poet'')" "fresh None None"]
  have "querySelector test_platform (personality_selector (js ''poet'')) = Inr False"
    by (simp add: test_platform_def)
  with A have "snd (changePersonality test_platform (JStr (js ''poet'')) (fresh None None)) = None"
    by blast
  with A have 1: "currentPersonality (fst (changePersonality test_platform (JStr (js ''poet'')) (fresh None None))) =
       JStr (js ''poet'')"
    by blast
  note B = persona_follows_the_given_id [of test_platform JNull "fresh None (Some (Json ?d))"]
  have "gemini_chat_data (fresh None (Some (Json ?d))) = Some (Json ?d)" "\<not> nullish ?d"
    by (simp_all add: fresh_def nullish_def)
  with B have "currentPersonality (loadSavedData test_platform (fresh None (Some (Json ?d)))) =
        js_or (or_undefined (get ?d (js ''currentPersonality''))) (JStr (js ''default''))"
    by blast
  then have 2: "currentPersonality (loadSavedData test_platform (fresh None (Some (Json ?d)))) =
       JStr (js ''teacher'')"
    by (simp add: get_def or_undefined_def js_or_def js_def)
  note C = persona_follows_the_given_id [of test_platform JNull "fresh None (Some (Json (JObj [])))"]
  have "gemini_chat_data (fresh None (Some (Json (JObj [])))) = Some (Json (JObj []))" "\<not> nullish (JObj [])"
    by (simp_all add: fresh_def nullish_def)
  with C have "currentPersonality (loadSavedData test_platform (fresh None (Some (Json (JObj []))))) =
        js_or (or_undefined (get (JObj []) (js ''currentPersonality''))) (JStr (js ''default''))"
    by blast
  then have 3: "currentPersonality (loadSavedData test_platform (fresh None (Some (Json (JObj []))))) =
       JStr (js ''default'')"
    by (simp add: get_def or_undefined_def js_or_def)
  from 0 1 2 3 show ?thesis by (intro conjI)
qed

text \<open>
  The claim as first stated has an unknown id end as \<open>default\<close>. The id \<open>pirate\<close> is not
  of the known set, and it becomes the active persona both when it is set and when it is
  loaded: lines 192 and 307 assign what they are given.
\<close>

theorem unknown_persona_counterexample:
  "js ''pirate'' \<notin> set known_personas
   \<and> currentPersonality
        (fst (changePersonality test_platform (JStr (js ''pirate'')) (fresh None None))) =
       JStr (js ''pirate'')
   \<and> currentPersonality
        (loadSavedData test_platform
           (fresh None (Some (Json (JObj [(js ''currentPersonality'', JStr (js ''pirate''))]))))) =
       JStr (js ''pirate'')"
proof -
  let ?d = "JObj [(js ''currentPersonality'', JStr (js ''pirate''))]"
  have 1: "js ''pirate'' \<notin> set known_personas"
    by (simp add: known_personas_def PERSONALITIES_def js_def)
  have 2: "currentPersonality
        (fst (changePersonality test_platform (JStr (js ''pirate'')) (fresh None None))) =
       JStr (js ''pirate'')"
    by (simp add: changePersonality_def and_then_def test_platform_def saveData_def)
  have "gemini_chat_data (fresh None (Some (Json ?d))) = Some (Json ?d)" "\<not> nullish ?d"
    by (simp_all add: fresh_def nullish_def)
  then have "currentPersonality (loadSavedData test_platform (fresh None (Some (Json ?d)))) =
        js_or (or_undefined (get ?d (js ''currentPersonality''))) (JStr (js ''default''))"
    by (rule loadSavedData_json)
  then have 3: "currentPersonality (loadSavedData test_platform (fresh None (Some (Json ?d)))) =
       JStr (js ''pirate'')"
    by (simp add: get_def or_undefined_def js_or_def js_def)
  from 1 2 3 show ?thesis by (intro conjI)
qed

text \<open>
  C5 (amended). When no snapshot is stored, or the stored text is empty, is not JSON or
  is \<open>null\<close>, loading leaves the state as it is: on a page just opened that is the
  empty history and the persona \<open>default\<close>. A stored JSON value of any other shape is
  read field by field: the history is the value of \<open>conversationHistory\<close> when truthy and
  the empty array otherwise, the persona the value of \<open>currentPersonality\<close> when truthy
  and \<open>default\<close> otherwise. Loading never raises: \<open>loadSavedData\<close> yields a state for
  every store.
\<close>

theorem load_degrades:
  "(gemini_chat_data st = None \<or> gemini_chat_data st = Some Blank
      \<or> gemini_chat_data st = Some Garbled \<or> gemini_chat_data st = Some (Json JNull) \<longrightarrow>
      loadSavedData pf st = st)
   \<and> (\<forall>data. gemini_chat_data st = Some (Json data) \<and> \<not> nullish data \<longrightarrow>
      conversationHistory (loadSavedData pf st) =
        js_or (or_undefined (get data (js ''conversationHistory''))) (JArr [])
      \<and> currentPersonality (loadSavedData pf st) =
        js_or (or_undefined (get data (js ''currentPersonality''))) (JStr (js ''default'')))"
  using loadSavedData_nothing [of st pf] by (auto simp: loadSavedData_json)

theorem load_degrades_witness:
  "loadSavedData test_platform (fresh None None) = fresh None None
   \<and> loadSavedData test_platform (fresh None (Some Garbled)) = fresh None (Some Garbled)
   \<and> conversationHistory (fresh None (Some Garbled)) = JArr []
   \<and> currentPersonality (fresh None (Some Garbled)) = JStr (js ''default'')
   \<and> conversationHistory (loadSavedData test_platform (fresh None (Some (Json (JObj []))))) = JArr []"
proof -
  have 1: "loadSavedData test_platform (fresh None None) = fresh None None"
    using load_degrades [of "fresh None None" test_platform] by (simp add: fresh_def)
  have 2: "loadSavedData test_platform (fresh None (Some Garbled)) = fresh None (Some Garbled)"
    using load_degrades [of "fresh None (Some Garbled)" test_platform] by (simp add: fresh_def)
  have "gemini_chat_data (fresh None (Some (Json (JObj [])))) = Some (Json (JObj []))" "\<not> nullish (JObj [])"
    by (simp_all add: fresh_def nullish_def)
  with load_degrades [of "fresh None (Some (Json (JObj [])))" test_platform]
  have "conversationHistory (loadSavedData test_platform (fresh None (Some (Json (JObj []))))) =
        js_or (or_undefined (get (JObj []) (js ''conversationHistory''))) (JArr [])"
    by blast
  then have 3: "conversationHistory (loadSavedData test_platform (fresh None (Some (Json (JObj []))))) = JArr []"
    by (simp add: get_def or_undefined_def js_or_def)
  have 4: "conversationHistory (fresh None (Some Garbled)) = JArr []"
    "currentPersonality (fresh None (Some Garbled)) = JStr (js ''default'')"
    by (simp_all add: fresh_def)
  from 1 2 3 4 show ?thesis by (intro conjI)
qed

text \<open>
  The claim as first stated has every snapshot that does not encode a history and a
  persona end in the default state. The snapshot \<^verbatim>\<open>{"conversationHistory": "oops"}\<close>
  is JSON, so line 306 takes its string as the history.
\<close>

theorem malformed_snapshot_counterexample:
  "conversationHistory
     (loadSavedData test_platform
        (fresh None (Some (Json (JObj [(js ''conversationHistory'', JStr (js ''oops''))]))))) =
   JStr (js ''oops'')
   \<and> JStr (js ''oops'') \<noteq> JArr []"
proof -
  let ?d = "JObj [(js ''conversationHistory'', JStr (js ''oops''))]"
  have "gemini_chat_data (fresh None (Some (Json ?d))) = Some (Json ?d)" "\<not> nullish ?d"
    by (simp_all add: fresh_def nullish_def)
  then have "conversationHistory (loadSavedData test_platform (fresh None (Some (Json ?d)))) =
        js_or (or_undefined (get ?d (js ''conversationHistory''))) (JArr [])"
    by (rule loadSavedData_json)
  then show ?thesis
    by (simp add: get_def or_undefined_def js_or_def js_def)
qed

section \<open>Restoring a history of odd length\<close>

























end
